theory Spec2Isabelle
  imports Main "HOL-Library.Word" "HOL-Library.Sublist"
begin

section \<open>The output sink and the fatal paths\<close>

text \<open>
  Every function of \<^verbatim>\<open>ir_print.cpp\<close> appends text to one \<^verbatim>\<open>FILE *\<close> and returns
  nothing. It can also stop the process: \<^verbatim>\<open>zig_unreachable()\<close>, a failed \<^verbatim>\<open>assert\<close>, or
  a read through a pointer that holds nothing (a NULL pointer, an index past the end of
  an array, a union member that is not the stored one). The model of a call is therefore
  the text it appended together with the way it stopped, if it did: on a fatal path the
  text written before it stays in the sink and nothing is written after it.
\<close>

text \<open>\<^verbatim>\<open>size_t\<close>, \<^verbatim>\<open>uint64_t\<close> and \<^verbatim>\<open>unsigned long long\<close> are 64 bits wide (an LP64 target).\<close>

type_synonym size_t = "64 word"

datatype fatal =
    ZigUnreachable              \<comment> \<open>\<^verbatim>\<open>zig_unreachable()\<close>\<close>
  | AssertionFailed string      \<comment> \<open>\<^verbatim>\<open>assert(e)\<close> with \<open>e\<close> false; the string is the text of \<open>e\<close>\<close>
  | Fault                       \<comment> \<open>undefined behaviour of a read: NULL, out of bounds, wrong union member\<close>

type_synonym out = "string \<times> fatal option"

definition emit :: "string \<Rightarrow> out" where
  "emit s = (s, None)"

definition abort :: "fatal \<Rightarrow> out" where
  "abort e = ([], Some e)"

definition andthen :: "out \<Rightarrow> out \<Rightarrow> out" where
  "andthen a b = (case snd a of None \<Rightarrow> (fst a @ fst b, snd b) | Some e \<Rightarrow> a)"

text \<open>A block of statements, run in order.\<close>

fun seqs :: "out list \<Rightarrow> out" where
  "seqs [] = emit []"
| "seqs (a # as) = andthen a (seqs as)"

text \<open>
  \<^verbatim>\<open>for (size_t i = i0; i < n; i += 1) body(i)\<close>. The counter stays below \<open>n\<close>, which is
  at most \<^verbatim>\<open>SIZE_MAX\<close>, so \<^verbatim>\<open>i += 1\<close> never wraps and the counter is a natural number.
\<close>

function for_loop :: "nat \<Rightarrow> nat \<Rightarrow> (nat \<Rightarrow> out) \<Rightarrow> out" where
  "for_loop i n body = (if i < n then andthen (body i) (for_loop (Suc i) n body) else emit [])"
  by pat_completeness auto
termination
  by (relation "measure (\<lambda>(i, n, body). n - i)") auto

declare for_loop.simps [simp del]

text \<open>
  A loop that writes \<open>sep\<close> before every element but the first
  (\<^verbatim>\<open>if (i != 0) fprintf(irp->f, sep);\<close>) writes its elements separated by \<open>sep\<close>:
  the reading of such a loop that the properties below are stated with.
\<close>

fun separated_by :: "string \<Rightarrow> out list \<Rightarrow> out" where
  "separated_by sep [] = emit []"
| "separated_by sep [a] = a"
| "separated_by sep (a # b # bs) = andthen a (andthen (emit sep) (separated_by sep (b # bs)))"

text \<open>\<^verbatim>\<open>xs[i]\<close> on a C array of which the model knows the elements \<open>xs\<close>.\<close>

definition at_index :: "'a list \<Rightarrow> nat \<Rightarrow> ('a \<Rightarrow> out) \<Rightarrow> out" where
  "at_index xs i k = (if i < length xs then k (xs ! i) else abort Fault)"

text \<open>
  The assertions a call can fail are among those whose texts are in \<open>S\<close>: used to tell
  the assertions of one function from those of the functions it calls.
\<close>

definition asserts_within :: "string set \<Rightarrow> out \<Rightarrow> bool" where
  "asserts_within S r = (case snd r of Some (AssertionFailed e) \<Rightarrow> e \<in> S | _ \<Rightarrow> True)"

subsection \<open>The \<^verbatim>\<open>printf\<close> conversions the file uses\<close>

definition digit_char :: "nat \<Rightarrow> char" where
  "digit_char d = ''0123456789'' ! d"

fun decimal :: "nat \<Rightarrow> string" where
  "decimal n = (if n < 10 then [digit_char n] else decimal (n div 10) @ [digit_char (n mod 10)])"

declare decimal.simps [simp del]

text \<open>The number that a text of decimal digits stands for.\<close>

definition decimal_value :: "string \<Rightarrow> nat" where
  "decimal_value s = foldl (\<lambda>a c. 10 * a + (of_char c - 48)) 0 s"

text \<open>\<^verbatim>\<open>%zu\<close> and \<^verbatim>\<open>%llu\<close>: both arguments are 64 bits wide here.\<close>

definition printf_zu :: "size_t \<Rightarrow> string" where
  "printf_zu n = decimal (unat n)"

text \<open>
  \<^verbatim>\<open>%-Ns\<close> and \<^verbatim>\<open>%-Nzu\<close>: the converted text, then spaces up to the minimum field
  width \<open>N\<close>. A longer text is written whole.
\<close>

definition printf_left :: "nat \<Rightarrow> string \<Rightarrow> string" where
  "printf_left w s = s @ replicate (w - length s) CHR '' ''"

section \<open>The data the printer reads\<close>

text \<open>
  \<^verbatim>\<open>ir.hpp\<close> and the headers it includes are not part of the sources at hand. The types
  below hold the fields that \<^verbatim>\<open>ir_print.cpp\<close> reads, under the names it reads them by.
  A tagged C union is a datatype; where the printer selects a union member by another
  tag (the type's id for a value), the member is stored with its own constructor and
  reading a different one is a \<^const>\<open>Fault\<close>. A pointer that the printer tests against
  NULL is an \<open>option\<close>.
\<close>

datatype TypeTableEntryId =
    TypeTableEntryIdInvalid
  | TypeTableEntryIdVar
  | TypeTableEntryIdTypeDecl
  | TypeTableEntryIdVoid
  | TypeTableEntryIdNumLitFloat
  | TypeTableEntryIdNumLitInt
  | TypeTableEntryIdMetaType
  | TypeTableEntryIdInt
  | TypeTableEntryIdFloat
  | TypeTableEntryIdUnreachable
  | TypeTableEntryIdBool
  | TypeTableEntryIdPointer
  | TypeTableEntryIdFn
  | TypeTableEntryIdBlock
  | TypeTableEntryIdArray
  | TypeTableEntryIdNullLit
  | TypeTableEntryIdUndefLit
  | TypeTableEntryIdMaybe
  | TypeTableEntryIdNamespace
  | TypeTableEntryIdBoundFn
  | TypeTableEntryIdStruct
  | TypeTableEntryIdEnum
  | TypeTableEntryIdErrorUnion
  | TypeTableEntryIdUnion
  | TypeTableEntryIdPureError

datatype TypeTableEntry =
  TypeTableEntry (type_id: TypeTableEntryId) (type_name: string) (type_data: TypeTableEntryData)
and TypeTableEntryData =
    type_decl TypeTableEntry              \<comment> \<open>\<^verbatim>\<open>data.type_decl.canonical_type\<close>\<close>
  | pointer TypeTableEntry                \<comment> \<open>\<^verbatim>\<open>data.pointer.child_type\<close>\<close>
  | array TypeTableEntry "64 word"        \<comment> \<open>\<^verbatim>\<open>data.array.child_type\<close>, \<^verbatim>\<open>data.array.len\<close>\<close>
  | maybe TypeTableEntry                  \<comment> \<open>\<^verbatim>\<open>data.maybe.child_type\<close>\<close>
  | no_type_data

datatype BigNumKind = BigNumKindInt | BigNumKindFloat

text \<open>
  Floating point is not modelled: a \<^verbatim>\<open>double\<close> is held as the text that \<^verbatim>\<open>%f\<close> writes
  for it.
\<close>

datatype BigNumData =
    x_uint "64 word"
  | x_float string

record BigNum =
  kind :: BigNumKind
  is_negative :: bool
  bignum_data :: BigNumData

record FnTableEntry =
  symbol_name :: string

record ImportTableEntry =
  path :: string

record AsmOutput =
  output_asm_symbolic_name :: string
  output_constraint :: string
  return_type :: "unit option"            \<comment> \<open>an \<^verbatim>\<open>AstNode *\<close>, only tested against NULL\<close>
  variable_name :: string

record AsmInput =
  input_asm_symbolic_name :: string
  input_constraint :: string

record AstNodeAsmExpr =
  asm_template :: string
  output_list :: "AsmOutput list"
  input_list :: "AsmInput list"
  clobber_list :: "string list"

datatype AstNodeData =
    NodeTypeAsmExpr AstNodeAsmExpr        \<comment> \<open>\<^verbatim>\<open>type == NodeTypeAsmExpr\<close>, with \<^verbatim>\<open>data.asm_expr\<close>\<close>
  | NodeTypeOther

record AstNode =
  line :: size_t
  column :: size_t
  node_data :: AstNodeData

record BlockContext =
  node :: AstNode

datatype ConstValSpecial =
    ConstValSpecialRuntime
  | ConstValSpecialStatic
  | ConstValSpecialUndef
  | ConstValSpecialZeroes

text \<open>
  Modelled from the spec: \<^verbatim>\<open>const_ptr_pointee\<close> is defined outside \<^verbatim>\<open>ir_print.cpp\<close>. By the
  data model a pointer value owns or aliases a pointee value, and value nesting is
  finite; \<open>x_ptr\<close> holds the value that \<^verbatim>\<open>const_ptr_pointee\<close> returns.
\<close>

datatype ConstExprValue =
  ConstExprValue (special: ConstValSpecial) (const_data: ConstData)
and ConstData =
    x_bignum BigNum
  | x_bool bool
  | x_type TypeTableEntry
  | x_fn FnTableEntry
  | x_block BlockContext
  | x_array "ConstExprValue list"         \<comment> \<open>\<^verbatim>\<open>x_array.elements\<close>\<close>
  | x_maybe "ConstExprValue option"
  | x_import ImportTableEntry
  | x_bound_fn FnTableEntry IrInstruction \<comment> \<open>\<^verbatim>\<open>x_bound_fn.fn\<close>, \<^verbatim>\<open>x_bound_fn.first_arg\<close>\<close>
  | x_ptr ConstExprValue
  | no_data
and IrInstruction =
  IrInstruction
    (type_entry: "TypeTableEntry option")
    (static_value: ConstExprValue)
    (debug_id: size_t)
    (ref_count: size_t)
    (source_node: AstNode)

text \<open>
  \<^typ>\<open>IrInstruction\<close> is the base \<^verbatim>\<open>struct IrInstruction\<close>, without its \<^verbatim>\<open>id\<close>: what the
  printer reads of an operand through an \<^verbatim>\<open>IrInstruction *\<close>.
\<close>

record IrPrint =
  indent :: int
  indent_size :: int

section \<open>Values\<close>

definition ir_print_indent :: "IrPrint \<Rightarrow> out" where
  "ir_print_indent irp = for_loop 0 (nat (indent irp)) (\<lambda>i. emit '' '')"

definition ir_print_var_instruction :: "IrInstruction \<Rightarrow> out" where
  "ir_print_var_instruction instruction = emit (''#'' @ printf_zu (debug_id instruction))"

lemma for_loop_cong [fundef_cong]:
  "i = i' \<Longrightarrow> n = n' \<Longrightarrow> (\<And>k. i' \<le> k \<Longrightarrow> k < n' \<Longrightarrow> f k = g k)
    \<Longrightarrow> for_loop i n f = for_loop i' n' g"
proof (induction i n f arbitrary: i' rule: for_loop.induct)
  case (1 i n body)
  show ?case
    using 1 by (subst for_loop.simps, subst (2) for_loop.simps) auto
qed

lemma at_index_cong [fundef_cong]:
  "xs = ys \<Longrightarrow> i = j \<Longrightarrow> (\<And>x. j < length ys \<Longrightarrow> x = ys ! j \<Longrightarrow> f x = g x)
    \<Longrightarrow> at_index xs i f = at_index ys j g"
  by (simp add: at_index_def)

lemma size_const_data [termination_simp]: "size (const_data v) < size v"
  by (cases v) simp

lemma size_static_value [termination_simp]: "size (static_value i) < size i"
  by (cases i) simp

lemma size_type_data [termination_simp]: "size (type_data t) < size t"
  by (cases t) simp

lemma size_elements [termination_simp]:
  "i < length xs \<Longrightarrow> size (xs ! i) < Suc (size_list size xs)"
  by (metis less_Suc_eq_le nth_mem size_list_estimation' order_refl)

function ir_print_const_value :: "TypeTableEntry option \<Rightarrow> ConstExprValue \<Rightarrow> out"
  and ir_print_const_instruction :: "IrInstruction \<Rightarrow> out"
  and ir_print_other_instruction :: "IrInstruction \<Rightarrow> out"
where
  "ir_print_const_value te const_val =
    (case special const_val of
      ConstValSpecialRuntime \<Rightarrow> abort ZigUnreachable
    | ConstValSpecialUndef \<Rightarrow> emit ''undefined''
    | ConstValSpecialZeroes \<Rightarrow> emit ''zeroes''
    | ConstValSpecialStatic \<Rightarrow>
       (case te of
         None \<Rightarrow> abort Fault
       | Some t \<Rightarrow>
          (case type_id t of
            TypeTableEntryIdTypeDecl \<Rightarrow>
              (case type_data t of
                type_decl canonical_type \<Rightarrow> ir_print_const_value (Some canonical_type) const_val
              | _ \<Rightarrow> abort Fault)
          | TypeTableEntryIdInvalid \<Rightarrow> emit ''(invalid)''
          | TypeTableEntryIdVar \<Rightarrow> emit ''(var)''
          | TypeTableEntryIdVoid \<Rightarrow> emit ''{}''
          | TypeTableEntryIdNumLitFloat \<Rightarrow>
              (case const_data const_val of
                x_bignum bignum \<Rightarrow>
                  (case bignum_data bignum of x_float d \<Rightarrow> emit d | _ \<Rightarrow> abort Fault)
              | _ \<Rightarrow> abort Fault)
          | TypeTableEntryIdNumLitInt \<Rightarrow>
              (case const_data const_val of
                x_bignum bignum \<Rightarrow>
                  (case bignum_data bignum of
                    x_uint u \<Rightarrow> emit ((if is_negative bignum then ''-'' else []) @ printf_zu u)
                  | _ \<Rightarrow> abort Fault)
              | _ \<Rightarrow> abort Fault)
          | TypeTableEntryIdMetaType \<Rightarrow>
              (case const_data const_val of
                x_type ty \<Rightarrow> emit (type_name ty)
              | _ \<Rightarrow> abort Fault)
          | TypeTableEntryIdInt \<Rightarrow>
              (case const_data const_val of
                x_bignum bignum \<Rightarrow>
                  (if kind bignum = BigNumKindInt then
                    (case bignum_data bignum of
                      x_uint u \<Rightarrow> emit ((if is_negative bignum then ''-'' else []) @ printf_zu u)
                    | _ \<Rightarrow> abort Fault)
                   else abort (AssertionFailed ''bignum->kind == BigNumKindInt''))
              | _ \<Rightarrow> abort Fault)
          | TypeTableEntryIdFloat \<Rightarrow>
              (case const_data const_val of
                x_bignum bignum \<Rightarrow>
                  (if kind bignum = BigNumKindFloat then
                    (case bignum_data bignum of x_float d \<Rightarrow> emit d | _ \<Rightarrow> abort Fault)
                   else abort (AssertionFailed ''bignum->kind == BigNumKindFloat''))
              | _ \<Rightarrow> abort Fault)
          | TypeTableEntryIdUnreachable \<Rightarrow> emit ''@unreachable()''
          | TypeTableEntryIdBool \<Rightarrow>
              (case const_data const_val of
                x_bool b \<Rightarrow> emit (if b then ''true'' else ''false'')
              | _ \<Rightarrow> abort Fault)
          | TypeTableEntryIdPointer \<Rightarrow>
              seqs [
                emit ''&'',
                (case type_data t of
                  pointer child_type \<Rightarrow>
                    (case const_data const_val of
                      x_ptr pointee \<Rightarrow> ir_print_const_value (Some child_type) pointee
                    | _ \<Rightarrow> abort Fault)
                | _ \<Rightarrow> abort Fault)]
          | TypeTableEntryIdFn \<Rightarrow>
              (case const_data const_val of
                x_fn fn_entry \<Rightarrow> emit (symbol_name fn_entry)
              | _ \<Rightarrow> abort Fault)
          | TypeTableEntryIdBlock \<Rightarrow>
              (case const_data const_val of
                x_block block_context \<Rightarrow>
                  emit (''(scope:'' @ printf_zu (line (node block_context) + 1) @ '':''
                        @ printf_zu (column (node block_context) + 1) @ '')'')
              | _ \<Rightarrow> abort Fault)
          | TypeTableEntryIdArray \<Rightarrow>
              (case type_data t of
                array child_type len \<Rightarrow>
                  seqs [
                    emit (type_name t @ ''{''),
                    for_loop 0 (unat len) (\<lambda>i.
                      seqs [
                        (if i \<noteq> 0 then emit '','' else emit []),
                        (case const_data const_val of
                          x_array elements \<Rightarrow>
                            at_index elements i (\<lambda>child_value.
                              ir_print_const_value (Some child_type) child_value)
                        | _ \<Rightarrow> abort Fault)]),
                    emit ''}'']
              | _ \<Rightarrow> abort Fault)
          | TypeTableEntryIdNullLit \<Rightarrow> emit ''null''
          | TypeTableEntryIdUndefLit \<Rightarrow> emit ''undefined''
          | TypeTableEntryIdMaybe \<Rightarrow>
              (case const_data const_val of
                x_maybe m \<Rightarrow>
                  (case m of
                    Some child \<Rightarrow>
                      (case type_data t of
                        maybe child_type \<Rightarrow> ir_print_const_value (Some child_type) child
                      | _ \<Rightarrow> abort Fault)
                  | None \<Rightarrow> emit ''null'')
              | _ \<Rightarrow> abort Fault)
          | TypeTableEntryIdNamespace \<Rightarrow>
              (case const_data const_val of
                x_import import \<Rightarrow> emit (''(namespace: '' @ path import @ '')'')
              | _ \<Rightarrow> abort Fault)
          | TypeTableEntryIdBoundFn \<Rightarrow>
              (case const_data const_val of
                x_bound_fn fn_entry first_arg \<Rightarrow>
                  seqs [
                    emit (''bound '' @ symbol_name fn_entry @ '' to ''),
                    ir_print_other_instruction first_arg]
              | _ \<Rightarrow> abort Fault)
          | TypeTableEntryIdStruct \<Rightarrow> emit (''(struct '' @ type_name t @ '' constant)'')
          | TypeTableEntryIdEnum \<Rightarrow> emit (''(enum '' @ type_name t @ '' constant)'')
          | TypeTableEntryIdErrorUnion \<Rightarrow> emit (''(error union '' @ type_name t @ '' constant)'')
          | TypeTableEntryIdUnion \<Rightarrow> emit (''(union '' @ type_name t @ '' constant)'')
          | TypeTableEntryIdPureError \<Rightarrow> emit ''(pure error constant)'')))"
| "ir_print_const_instruction instruction =
    ir_print_const_value (type_entry instruction) (static_value instruction)"
| "ir_print_other_instruction instruction =
    (if special (static_value instruction) \<noteq> ConstValSpecialRuntime
     then ir_print_const_instruction instruction
     else ir_print_var_instruction instruction)"
  by pat_completeness auto
termination
proof (relation "inv_image (less_than <*lex*> less_than)
    (\<lambda>x. case x of
       Inl (te, v) \<Rightarrow> (size v, case te of None \<Rightarrow> 0 | Some t \<Rightarrow> size t)
     | Inr (Inl i) \<Rightarrow> (size i, 0)
     | Inr (Inr i) \<Rightarrow> (size i, 1))", goal_cases)
  case 1
  show ?case by (intro wf_inv_image wf_lex_prod wf_less_than)
next
  case (2 te v t c)
  then show ?case
    using size_type_data [of t] by simp
next
  case (3 te v t c p)
  then show ?case
    using size_const_data [of v] by simp
next
  case (4 te v t c len i es e)
  then show ?case
    using size_const_data [of v] size_elements [of i es] by simp
next
  case (5 te v t m c ct)
  then show ?case
    using size_const_data [of v] by simp
next
  case (6 te v t fn first_arg)
  then show ?case
    using size_const_data [of v] by simp
next
  case (7 i)
  then show ?case
    using size_static_value [of i] by simp
next
  case (8 i)
  then show ?case by simp
qed


declare ir_print_const_value.simps [simp del]
declare ir_print_const_instruction.simps [simp del]
declare ir_print_other_instruction.simps [simp del]

section \<open>Instructions\<close>

record IrBasicBlockRef =
  name_hint :: string
  block_debug_id :: size_t                \<comment> \<open>\<^verbatim>\<open>debug_id\<close> of \<^verbatim>\<open>struct IrBasicBlock\<close>\<close>

text \<open>
  \<^typ>\<open>IrBasicBlockRef\<close> is what the printer reads of a block through an
  \<^verbatim>\<open>IrBasicBlock *\<close> held by an instruction.
\<close>

record VariableTableEntry =
  var_name :: string                      \<comment> \<open>\<^verbatim>\<open>name\<close>\<close>
  is_inline :: bool
  gen_is_const :: bool

record TypeStructField =
  struct_field_name :: string             \<comment> \<open>\<^verbatim>\<open>name\<close>\<close>

record TypeEnumField =
  enum_field_name :: string               \<comment> \<open>\<^verbatim>\<open>name\<close>\<close>

datatype IrBinOp =
    IrBinOpInvalid
  | IrBinOpBoolOr
  | IrBinOpBoolAnd
  | IrBinOpCmpEq
  | IrBinOpCmpNotEq
  | IrBinOpCmpLessThan
  | IrBinOpCmpGreaterThan
  | IrBinOpCmpLessOrEq
  | IrBinOpCmpGreaterOrEq
  | IrBinOpBinOr
  | IrBinOpBinXor
  | IrBinOpBinAnd
  | IrBinOpBitShiftLeft
  | IrBinOpBitShiftLeftWrap
  | IrBinOpBitShiftRight
  | IrBinOpAdd
  | IrBinOpAddWrap
  | IrBinOpSub
  | IrBinOpSubWrap
  | IrBinOpMult
  | IrBinOpMultWrap
  | IrBinOpDiv
  | IrBinOpMod
  | IrBinOpArrayCat
  | IrBinOpArrayMult

datatype IrUnOp =
    IrUnOpInvalid
  | IrUnOpBoolNot
  | IrUnOpBinNot
  | IrUnOpNegation
  | IrUnOpNegationWrap
  | IrUnOpAddressOf
  | IrUnOpConstAddressOf
  | IrUnOpDereference
  | IrUnOpMaybe
  | IrUnOpError
  | IrUnOpUnwrapError
  | IrUnOpUnwrapMaybe
  | IrUnOpMaybeReturn
  | IrUnOpErrorReturn

datatype 'i IrInstructionContainerInitFieldsField =
  IrInstructionContainerInitFieldsField (init_field_name: string) (init_field_value: 'i)

datatype 'i IrInstructionStructInitField =
  IrInstructionStructInitField (type_struct_field: TypeStructField) (struct_field_value: 'i)

datatype ('i, 'b) IrInstructionSwitchBrCase =
  IrInstructionSwitchBrCase (case_value: 'i) (case_block: 'b)

text \<open>
  One constructor for each \<^verbatim>\<open>IrInstructionId\<close>, holding the fields of the instruction's
  own struct that the printer reads, in the order named in the comment. \<open>'i\<close> is what an
  \<^verbatim>\<open>IrInstruction *\<close> operand points to and \<open>'b\<close> what an \<^verbatim>\<open>IrBasicBlock *\<close> points to. An
  array that comes with its own count (\<^verbatim>\<open>args\<close> with \<^verbatim>\<open>arg_count\<close>) is the list of its
  elements; the count is a field of its own.
\<close>

datatype (operands_of: 'i, blocks_of: 'b) IrInstructionPayload =
    IrInstructionInvalid
  | IrInstructionReturn "'i option"
      \<comment> \<open>\<^verbatim>\<open>value\<close>\<close>
  | IrInstructionConst
  | IrInstructionBinOp 'i IrBinOp 'i
      \<comment> \<open>\<^verbatim>\<open>op1\<close>, \<^verbatim>\<open>op_id\<close>, \<^verbatim>\<open>op2\<close>\<close>
  | IrInstructionDeclVar VariableTableEntry "'i option" 'i
      \<comment> \<open>\<^verbatim>\<open>var\<close>, \<^verbatim>\<open>var_type\<close>, \<^verbatim>\<open>init_value\<close>\<close>
  | IrInstructionCast 'i TypeTableEntry
      \<comment> \<open>\<^verbatim>\<open>value\<close>, \<^verbatim>\<open>dest_type\<close>\<close>
  | IrInstructionCall "FnTableEntry option" "'i option" size_t "'i list"
      \<comment> \<open>\<^verbatim>\<open>fn_entry\<close>, \<^verbatim>\<open>fn_ref\<close>, \<^verbatim>\<open>arg_count\<close>, \<^verbatim>\<open>args\<close>\<close>
  | IrInstructionUnOp IrUnOp 'i
      \<comment> \<open>\<^verbatim>\<open>op_id\<close>, \<^verbatim>\<open>value\<close>\<close>
  | IrInstructionCondBr bool 'i 'b 'b
      \<comment> \<open>\<^verbatim>\<open>is_inline\<close>, \<^verbatim>\<open>condition\<close>, \<^verbatim>\<open>then_block\<close>, \<^verbatim>\<open>else_block\<close>\<close>
  | IrInstructionBr bool 'b
      \<comment> \<open>\<^verbatim>\<open>is_inline\<close>, \<^verbatim>\<open>dest_block\<close>\<close>
  | IrInstructionPhi size_t "'b list" "'i list"
      \<comment> \<open>\<^verbatim>\<open>incoming_count\<close>, \<^verbatim>\<open>incoming_blocks\<close>, \<^verbatim>\<open>incoming_values\<close>\<close>
  | IrInstructionContainerInitList 'i size_t "'i list"
      \<comment> \<open>\<^verbatim>\<open>container_type\<close>, \<^verbatim>\<open>item_count\<close>, \<^verbatim>\<open>items\<close>\<close>
  | IrInstructionContainerInitFields 'i size_t "'i IrInstructionContainerInitFieldsField list"
      \<comment> \<open>\<^verbatim>\<open>container_type\<close>, \<^verbatim>\<open>field_count\<close>, \<^verbatim>\<open>fields\<close>\<close>
  | IrInstructionStructInit TypeTableEntry size_t "'i IrInstructionStructInitField list"
      \<comment> \<open>\<^verbatim>\<open>struct_type\<close>, \<^verbatim>\<open>field_count\<close>, \<^verbatim>\<open>fields\<close>\<close>
  | IrInstructionUnreachable
  | IrInstructionElemPtr 'i 'i bool
      \<comment> \<open>\<^verbatim>\<open>array_ptr\<close>, \<^verbatim>\<open>elem_index\<close>, \<^verbatim>\<open>safety_check_on\<close>\<close>
  | IrInstructionVarPtr VariableTableEntry
      \<comment> \<open>\<^verbatim>\<open>var\<close>\<close>
  | IrInstructionLoadPtr 'i
      \<comment> \<open>\<^verbatim>\<open>ptr\<close>\<close>
  | IrInstructionStorePtr 'i 'i
      \<comment> \<open>\<^verbatim>\<open>ptr\<close>, \<^verbatim>\<open>value\<close>\<close>
  | IrInstructionTypeOf 'i
      \<comment> \<open>\<^verbatim>\<open>value\<close>\<close>
  | IrInstructionToPtrType 'i
      \<comment> \<open>\<^verbatim>\<open>value\<close>\<close>
  | IrInstructionPtrTypeChild 'i
      \<comment> \<open>\<^verbatim>\<open>value\<close>\<close>
  | IrInstructionFieldPtr 'i string
      \<comment> \<open>\<^verbatim>\<open>container_ptr\<close>, \<^verbatim>\<open>field_name\<close>\<close>
  | IrInstructionStructFieldPtr 'i TypeStructField
      \<comment> \<open>\<^verbatim>\<open>struct_ptr\<close>, \<^verbatim>\<open>field\<close>\<close>
  | IrInstructionEnumFieldPtr 'i TypeEnumField
      \<comment> \<open>\<^verbatim>\<open>enum_ptr\<close>, \<^verbatim>\<open>field\<close>\<close>
  | IrInstructionSetFnTest 'i 'i
      \<comment> \<open>\<^verbatim>\<open>fn_value\<close>, \<^verbatim>\<open>is_test\<close>\<close>
  | IrInstructionSetFnVisible 'i 'i
      \<comment> \<open>\<^verbatim>\<open>fn_value\<close>, \<^verbatim>\<open>is_visible\<close>\<close>
  | IrInstructionSetDebugSafety 'i 'i
      \<comment> \<open>\<^verbatim>\<open>scope_value\<close>, \<^verbatim>\<open>debug_safety_on\<close>\<close>
  | IrInstructionArrayType 'i 'i
      \<comment> \<open>\<^verbatim>\<open>size\<close>, \<^verbatim>\<open>child_type\<close>\<close>
  | IrInstructionSliceType bool 'i
      \<comment> \<open>\<^verbatim>\<open>is_const\<close>, \<^verbatim>\<open>child_type\<close>\<close>
  | IrInstructionAsm bool "'i list" "'i list"
      \<comment> \<open>\<^verbatim>\<open>has_side_effects\<close>, \<^verbatim>\<open>output_types\<close>, \<^verbatim>\<open>input_list\<close>\<close>
  | IrInstructionCompileVar 'i
      \<comment> \<open>\<^verbatim>\<open>name\<close>\<close>
  | IrInstructionSizeOf 'i
      \<comment> \<open>\<^verbatim>\<open>type_value\<close>\<close>
  | IrInstructionTestNull 'i
      \<comment> \<open>\<^verbatim>\<open>value\<close>\<close>
  | IrInstructionUnwrapMaybe 'i bool
      \<comment> \<open>\<^verbatim>\<open>value\<close>, \<^verbatim>\<open>safety_check_on\<close>\<close>
  | IrInstructionClz 'i
      \<comment> \<open>\<^verbatim>\<open>value\<close>\<close>
  | IrInstructionCtz 'i
      \<comment> \<open>\<^verbatim>\<open>value\<close>\<close>
  | IrInstructionSwitchBr bool 'i size_t "('i, 'b) IrInstructionSwitchBrCase list" 'b
      \<comment> \<open>\<^verbatim>\<open>is_inline\<close>, \<^verbatim>\<open>target_value\<close>, \<^verbatim>\<open>case_count\<close>, \<^verbatim>\<open>cases\<close>, \<^verbatim>\<open>else_block\<close>\<close>
  | IrInstructionSwitchVar 'i 'i
      \<comment> \<open>\<^verbatim>\<open>target_value_ptr\<close>, \<^verbatim>\<open>prong_value\<close>\<close>
  | IrInstructionSwitchTarget 'i
      \<comment> \<open>\<^verbatim>\<open>target_value_ptr\<close>\<close>
  | IrInstructionEnumTag 'i
      \<comment> \<open>\<^verbatim>\<open>value\<close>\<close>
  | IrInstructionStaticEval 'i
      \<comment> \<open>\<^verbatim>\<open>value\<close>\<close>
  | IrInstructionImport 'i
      \<comment> \<open>\<^verbatim>\<open>name\<close>\<close>
  | IrInstructionArrayLen 'i
      \<comment> \<open>\<^verbatim>\<open>array_value\<close>\<close>
  | IrInstructionRef 'i
      \<comment> \<open>\<^verbatim>\<open>value\<close>\<close>
  for map: map_payload

text \<open>
  An instruction as \<^verbatim>\<open>ir_print_instruction\<close> receives it: the base struct and, selected
  by \<^verbatim>\<open>id\<close>, the struct that extends it.
\<close>

datatype IrInst =
  IrInst (base: IrInstruction) (payload: "(IrInstruction, IrBasicBlockRef) IrInstructionPayload")

record IrBasicBlock = IrBasicBlockRef +
  instruction_list :: "IrInst list"

record IrExecutable =
  basic_block_list :: "IrBasicBlock list"


subsection \<open>The line prefix\<close>

text \<open>
  \<^verbatim>\<open>ir_has_side_effects\<close> is defined outside \<^verbatim>\<open>ir_print.cpp\<close>; the functions that call it
  take it as the parameter \<open>has_side_effects\<close>.
\<close>

definition ir_print_prefix :: "(IrInst \<Rightarrow> bool) \<Rightarrow> IrPrint \<Rightarrow> IrInst \<Rightarrow> out" where
  "ir_print_prefix has_side_effects irp instruction =
    seqs [
      ir_print_indent irp,
      (let name = (case type_entry (base instruction) of
                     Some t \<Rightarrow> type_name t
                   | None \<Rightarrow> ''(unknown)'');
           count = (if has_side_effects instruction then ''-''
                    else printf_zu (ref_count (base instruction)))
       in emit (''#'' @ printf_left 3 (printf_zu (debug_id (base instruction))) @ ''| ''
                @ printf_left 12 name @ ''| '' @ printf_left 2 count @ ''| ''))]"

subsection \<open>One function for each kind of instruction\<close>

definition ir_print_other_block :: "IrBasicBlockRef \<Rightarrow> out" where
  "ir_print_other_block bb = emit (''$'' @ name_hint bb @ ''_'' @ printf_zu (block_debug_id bb))"

definition ir_print_return :: "IrInstruction option \<Rightarrow> out" where
  "ir_print_return val =
    (case val of
      None \<Rightarrow> abort (AssertionFailed ''return_instruction->value'')
    | Some v \<Rightarrow> seqs [emit ''return '', ir_print_other_instruction v])"

definition ir_print_const :: "IrInstruction \<Rightarrow> out" where
  "ir_print_const const_instruction_base = ir_print_const_instruction const_instruction_base"

fun ir_bin_op_id_str :: "IrBinOp \<Rightarrow> fatal + string" where
  "ir_bin_op_id_str IrBinOpInvalid = Inl ZigUnreachable"
| "ir_bin_op_id_str IrBinOpBoolOr = Inr ''BoolOr''"
| "ir_bin_op_id_str IrBinOpBoolAnd = Inr ''BoolAnd''"
| "ir_bin_op_id_str IrBinOpCmpEq = Inr ''==''"
| "ir_bin_op_id_str IrBinOpCmpNotEq = Inr ''!=''"
| "ir_bin_op_id_str IrBinOpCmpLessThan = Inr ''<''"
| "ir_bin_op_id_str IrBinOpCmpGreaterThan = Inr ''>''"
| "ir_bin_op_id_str IrBinOpCmpLessOrEq = Inr ''<=''"
| "ir_bin_op_id_str IrBinOpCmpGreaterOrEq = Inr ''>=''"
| "ir_bin_op_id_str IrBinOpBinOr = Inr ''|''"
| "ir_bin_op_id_str IrBinOpBinXor = Inr ''^''"
| "ir_bin_op_id_str IrBinOpBinAnd = Inr ''&''"
| "ir_bin_op_id_str IrBinOpBitShiftLeft = Inr ''<<''"
| "ir_bin_op_id_str IrBinOpBitShiftLeftWrap = Inr ''<<%''"
| "ir_bin_op_id_str IrBinOpBitShiftRight = Inr ''>>''"
| "ir_bin_op_id_str IrBinOpAdd = Inr ''+''"
| "ir_bin_op_id_str IrBinOpAddWrap = Inr ''+%''"
| "ir_bin_op_id_str IrBinOpSub = Inr ''-''"
| "ir_bin_op_id_str IrBinOpSubWrap = Inr ''-%''"
| "ir_bin_op_id_str IrBinOpMult = Inr ''*''"
| "ir_bin_op_id_str IrBinOpMultWrap = Inr ''*%''"
| "ir_bin_op_id_str IrBinOpDiv = Inr ''/''"
| "ir_bin_op_id_str IrBinOpMod = Inr ''%''"
| "ir_bin_op_id_str IrBinOpArrayCat = Inr ''++''"
| "ir_bin_op_id_str IrBinOpArrayMult = Inr ''**''"

fun ir_un_op_id_str :: "IrUnOp \<Rightarrow> fatal + string" where
  "ir_un_op_id_str IrUnOpInvalid = Inl ZigUnreachable"
| "ir_un_op_id_str IrUnOpBoolNot = Inr ''!''"
| "ir_un_op_id_str IrUnOpBinNot = Inr ''~''"
| "ir_un_op_id_str IrUnOpNegation = Inr ''-''"
| "ir_un_op_id_str IrUnOpNegationWrap = Inr ''-%''"
| "ir_un_op_id_str IrUnOpAddressOf = Inr ''&''"
| "ir_un_op_id_str IrUnOpConstAddressOf = Inr ''&const''"
| "ir_un_op_id_str IrUnOpDereference = Inr ''*''"
| "ir_un_op_id_str IrUnOpMaybe = Inr ''?''"
| "ir_un_op_id_str IrUnOpError = Inr ''%''"
| "ir_un_op_id_str IrUnOpUnwrapError = Inr ''%%''"
| "ir_un_op_id_str IrUnOpUnwrapMaybe = Inr ''??''"
| "ir_un_op_id_str IrUnOpMaybeReturn = Inr ''?return''"
| "ir_un_op_id_str IrUnOpErrorReturn = Inr ''%return''"

text \<open>
  The operator's text is an argument of \<^verbatim>\<open>fprintf\<close>: it is computed, and its fatal path
  taken, before the call writes anything.
\<close>

definition ir_print_un_op :: "IrUnOp \<Rightarrow> IrInstruction \<Rightarrow> out" where
  "ir_print_un_op op_id val =
    seqs [
      (case ir_un_op_id_str op_id of Inl e \<Rightarrow> abort e | Inr s \<Rightarrow> emit (s @ '' '')),
      ir_print_other_instruction val]"

definition ir_print_bin_op :: "IrInstruction \<Rightarrow> IrBinOp \<Rightarrow> IrInstruction \<Rightarrow> out" where
  "ir_print_bin_op op1 op_id op2 =
    seqs [
      ir_print_other_instruction op1,
      (case ir_bin_op_id_str op_id of Inl e \<Rightarrow> abort e | Inr s \<Rightarrow> emit ('' '' @ s @ '' '')),
      ir_print_other_instruction op2]"

definition ir_print_decl_var ::
  "VariableTableEntry \<Rightarrow> IrInstruction option \<Rightarrow> IrInstruction \<Rightarrow> out" where
  "ir_print_decl_var var var_type init_value =
    (let inline_kw = (if is_inline var then ''inline '' else []);
         var_or_const = (if gen_is_const var then ''const'' else ''var'');
         name = var_name var
     in seqs [
          (case var_type of
            Some ty \<Rightarrow>
              seqs [
                emit (inline_kw @ var_or_const @ '' '' @ name @ '': ''),
                ir_print_other_instruction ty,
                emit '' = '']
          | None \<Rightarrow> emit (inline_kw @ var_or_const @ '' '' @ name @ '' = '')),
          ir_print_other_instruction init_value])"

definition ir_print_cast :: "IrInstruction \<Rightarrow> TypeTableEntry \<Rightarrow> out" where
  "ir_print_cast val dest_type =
    seqs [
      emit ''cast '',
      ir_print_other_instruction val,
      emit ('' to '' @ type_name dest_type)]"

definition ir_print_call ::
  "FnTableEntry option \<Rightarrow> IrInstruction option \<Rightarrow> size_t \<Rightarrow> IrInstruction list \<Rightarrow> out" where
  "ir_print_call fn_entry fn_ref arg_count args =
    seqs [
      (case fn_entry of
        Some fn \<Rightarrow> emit (symbol_name fn)
      | None \<Rightarrow>
          (case fn_ref of
            None \<Rightarrow> abort (AssertionFailed ''call_instruction->fn_ref'')
          | Some r \<Rightarrow> ir_print_other_instruction r)),
      emit ''('',
      for_loop 0 (unat arg_count) (\<lambda>i.
        at_index args i (\<lambda>arg.
          seqs [
            (if i \<noteq> 0 then emit '', '' else emit []),
            ir_print_other_instruction arg])),
      emit '')'']"

definition ir_print_cond_br ::
  "bool \<Rightarrow> IrInstruction \<Rightarrow> IrBasicBlockRef \<Rightarrow> IrBasicBlockRef \<Rightarrow> out" where
  "ir_print_cond_br is_inl condition then_block else_block =
    seqs [
      emit ((if is_inl then ''inline '' else []) @ ''if (''),
      ir_print_other_instruction condition,
      emit '') '',
      ir_print_other_block then_block,
      emit '' else '',
      ir_print_other_block else_block]"

definition ir_print_br :: "bool \<Rightarrow> IrBasicBlockRef \<Rightarrow> out" where
  "ir_print_br is_inl dest_block =
    seqs [
      emit ((if is_inl then ''inline '' else []) @ ''goto ''),
      ir_print_other_block dest_block]"

definition SIZE_MAX :: size_t where
  "SIZE_MAX = - 1"

definition ir_print_phi ::
  "size_t \<Rightarrow> IrBasicBlockRef list \<Rightarrow> IrInstruction list \<Rightarrow> out" where
  "ir_print_phi incoming_count incoming_blocks incoming_values =
    (if \<not> incoming_count \<noteq> 0
       then abort (AssertionFailed ''phi_instruction->incoming_count != 0'')
     else if \<not> incoming_count \<noteq> SIZE_MAX
       then abort (AssertionFailed ''phi_instruction->incoming_count != SIZE_MAX'')
     else
       for_loop 0 (unat incoming_count) (\<lambda>i.
         at_index incoming_blocks i (\<lambda>incoming_block.
           at_index incoming_values i (\<lambda>incoming_value.
             seqs [
               (if i \<noteq> 0 then emit '' '' else emit []),
               ir_print_other_block incoming_block,
               emit '':'',
               ir_print_other_instruction incoming_value]))))"

definition ir_print_container_init_list ::
  "IrInstruction \<Rightarrow> size_t \<Rightarrow> IrInstruction list \<Rightarrow> out" where
  "ir_print_container_init_list container_type item_count items =
    seqs [
      ir_print_other_instruction container_type,
      emit ''{'',
      for_loop 0 (unat item_count) (\<lambda>i.
        at_index items i (\<lambda>item.
          seqs [
            (if i \<noteq> 0 then emit '', '' else emit []),
            ir_print_other_instruction item])),
      emit ''}'']"

definition ir_print_container_init_fields ::
  "IrInstruction \<Rightarrow> size_t \<Rightarrow> IrInstruction IrInstructionContainerInitFieldsField list \<Rightarrow> out"
  where
  "ir_print_container_init_fields container_type field_count fields' =
    seqs [
      ir_print_other_instruction container_type,
      emit ''{'',
      for_loop 0 (unat field_count) (\<lambda>i.
        at_index fields' i (\<lambda>field.
          (let comma = (if i = 0 then [] else '', '')
           in seqs [
                emit (comma @ ''.'' @ init_field_name field @ '' = ''),
                ir_print_other_instruction (init_field_value field)]))),
      emit ''} // container init'']"

definition ir_print_struct_init ::
  "TypeTableEntry \<Rightarrow> size_t \<Rightarrow> IrInstruction IrInstructionStructInitField list \<Rightarrow> out" where
  "ir_print_struct_init struct_type field_count fields' =
    seqs [
      emit (type_name struct_type @ '' {''),
      for_loop 0 (unat field_count) (\<lambda>i.
        at_index fields' i (\<lambda>field.
          (let field_name = struct_field_name (type_struct_field field);
               comma = (if i = 0 then [] else '', '')
           in seqs [
                emit (comma @ ''.'' @ field_name @ '' = ''),
                ir_print_other_instruction (struct_field_value field)]))),
      emit ''} // struct init'']"

definition ir_print_unreachable :: out where
  "ir_print_unreachable = emit ''unreachable''"

definition ir_print_elem_ptr :: "IrInstruction \<Rightarrow> IrInstruction \<Rightarrow> bool \<Rightarrow> out" where
  "ir_print_elem_ptr array_ptr elem_index safety_check_on =
    seqs [
      emit ''&'',
      ir_print_other_instruction array_ptr,
      emit ''['',
      ir_print_other_instruction elem_index,
      emit '']'',
      (if \<not> safety_check_on then emit '' // no safety'' else emit [])]"

definition ir_print_var_ptr :: "VariableTableEntry \<Rightarrow> out" where
  "ir_print_var_ptr var = emit (''&'' @ var_name var)"

definition ir_print_load_ptr :: "IrInstruction \<Rightarrow> out" where
  "ir_print_load_ptr ptr =
    seqs [
      emit ''*'',
      ir_print_other_instruction ptr]"

definition ir_print_store_ptr :: "IrInstruction \<Rightarrow> IrInstruction \<Rightarrow> out" where
  "ir_print_store_ptr ptr val =
    seqs [
      emit ''*'',
      ir_print_var_instruction ptr,
      emit '' = '',
      ir_print_other_instruction val]"

definition ir_print_typeof :: "IrInstruction \<Rightarrow> out" where
  "ir_print_typeof val =
    seqs [
      emit ''@typeOf('',
      ir_print_other_instruction val,
      emit '')'']"

definition ir_print_to_ptr_type :: "IrInstruction \<Rightarrow> out" where
  "ir_print_to_ptr_type val =
    seqs [
      emit ''@toPtrType('',
      ir_print_other_instruction val,
      emit '')'']"

definition ir_print_ptr_type_child :: "IrInstruction \<Rightarrow> out" where
  "ir_print_ptr_type_child val =
    seqs [
      emit ''@ptrTypeChild('',
      ir_print_other_instruction val,
      emit '')'']"

definition ir_print_field_ptr :: "IrInstruction \<Rightarrow> string \<Rightarrow> out" where
  "ir_print_field_ptr container_ptr field_name =
    seqs [
      emit ''fieldptr '',
      ir_print_other_instruction container_ptr,
      emit (''.'' @ field_name)]"

definition ir_print_struct_field_ptr :: "IrInstruction \<Rightarrow> TypeStructField \<Rightarrow> out" where
  "ir_print_struct_field_ptr struct_ptr field =
    seqs [
      emit ''@StructFieldPtr(&'',
      ir_print_other_instruction struct_ptr,
      emit (''.'' @ struct_field_name field),
      emit '')'']"

definition ir_print_enum_field_ptr :: "IrInstruction \<Rightarrow> TypeEnumField \<Rightarrow> out" where
  "ir_print_enum_field_ptr enum_ptr field =
    seqs [
      emit ''@EnumFieldPtr(&'',
      ir_print_other_instruction enum_ptr,
      emit (''.'' @ enum_field_name field),
      emit '')'']"

definition ir_print_set_fn_test :: "IrInstruction \<Rightarrow> IrInstruction \<Rightarrow> out" where
  "ir_print_set_fn_test fn_value is_test =
    seqs [
      emit ''@setFnTest('',
      ir_print_other_instruction fn_value,
      emit '', '',
      ir_print_other_instruction is_test,
      emit '')'']"

definition ir_print_set_fn_visible :: "IrInstruction \<Rightarrow> IrInstruction \<Rightarrow> out" where
  "ir_print_set_fn_visible fn_value is_visible =
    seqs [
      emit ''@setFnVisible('',
      ir_print_other_instruction fn_value,
      emit '', '',
      ir_print_other_instruction is_visible,
      emit '')'']"

definition ir_print_set_debug_safety :: "IrInstruction \<Rightarrow> IrInstruction \<Rightarrow> out" where
  "ir_print_set_debug_safety scope_value debug_safety_on =
    seqs [
      emit ''@setDebugSafety('',
      ir_print_other_instruction scope_value,
      emit '', '',
      ir_print_other_instruction debug_safety_on,
      emit '')'']"

definition ir_print_array_type :: "IrInstruction \<Rightarrow> IrInstruction \<Rightarrow> out" where
  "ir_print_array_type size' child_type =
    seqs [
      emit ''['',
      ir_print_other_instruction size',
      emit '']'',
      ir_print_other_instruction child_type]"

definition ir_print_slice_type :: "bool \<Rightarrow> IrInstruction \<Rightarrow> out" where
  "ir_print_slice_type is_const child_type =
    seqs [
      emit (''[]'' @ (if is_const then ''const '' else [])),
      ir_print_other_instruction child_type]"

definition dquote :: string where
  "dquote = [CHR 0x22]"

definition ir_print_asm ::
  "IrInstruction \<Rightarrow> bool \<Rightarrow> IrInstruction list \<Rightarrow> IrInstruction list \<Rightarrow> out" where
  "ir_print_asm instruction_base has_side_effects output_types inputs =
    (case node_data (source_node instruction_base) of
      NodeTypeOther \<Rightarrow>
        abort (AssertionFailed ''instruction->base.source_node->type == NodeTypeAsmExpr'')
    | NodeTypeAsmExpr asm_expr \<Rightarrow>
        seqs [
          emit (''asm'' @ (if has_side_effects then '' volatile'' else []) @ '' ('' @ dquote
                @ asm_template asm_expr @ dquote @ '') : ''),
          for_loop 0 (length (output_list asm_expr)) (\<lambda>i.
            (let asm_output = output_list asm_expr ! i
             in seqs [
                  (if i \<noteq> 0 then emit '', '' else emit []),
                  emit (''['' @ output_asm_symbolic_name asm_output @ ''] '' @ dquote
                        @ output_constraint asm_output @ dquote @ '' (''),
                  (case return_type asm_output of
                    Some _ \<Rightarrow>
                      seqs [
                        emit ''-> '',
                        at_index output_types i ir_print_other_instruction]
                  | None \<Rightarrow> emit (variable_name asm_output)),
                  emit '')''])),
          emit '' : '',
          for_loop 0 (length (input_list asm_expr)) (\<lambda>i.
            (let asm_input = input_list asm_expr ! i
             in seqs [
                  (if i \<noteq> 0 then emit '', '' else emit []),
                  emit (''['' @ input_asm_symbolic_name asm_input @ ''] '' @ dquote
                        @ input_constraint asm_input @ dquote @ '' (''),
                  at_index inputs i ir_print_other_instruction,
                  emit '')''])),
          emit '' : '',
          for_loop 0 (length (clobber_list asm_expr)) (\<lambda>i.
            (let reg_name = clobber_list asm_expr ! i
             in seqs [
                  (if i \<noteq> 0 then emit '', '' else emit []),
                  emit (dquote @ reg_name @ dquote)])),
          emit '')''])"

definition ir_print_compile_var :: "IrInstruction \<Rightarrow> out" where
  "ir_print_compile_var name =
    seqs [
      emit ''@compileVar('',
      ir_print_other_instruction name,
      emit '')'']"

definition ir_print_size_of :: "IrInstruction \<Rightarrow> out" where
  "ir_print_size_of type_value =
    seqs [
      emit ''@sizeOf('',
      ir_print_other_instruction type_value,
      emit '')'']"

definition ir_print_test_null :: "IrInstruction \<Rightarrow> out" where
  "ir_print_test_null val =
    seqs [
      emit ''*'',
      ir_print_other_instruction val,
      emit '' == null'']"

definition ir_print_unwrap_maybe :: "IrInstruction \<Rightarrow> bool \<Rightarrow> out" where
  "ir_print_unwrap_maybe val safety_check_on =
    seqs [
      emit ''&??*'',
      ir_print_other_instruction val,
      (if \<not> safety_check_on then emit '' // no safety'' else emit [])]"

definition ir_print_clz :: "IrInstruction \<Rightarrow> out" where
  "ir_print_clz val =
    seqs [
      emit ''@clz('',
      ir_print_other_instruction val,
      emit '')'']"

definition ir_print_ctz :: "IrInstruction \<Rightarrow> out" where
  "ir_print_ctz val =
    seqs [
      emit ''@ctz('',
      ir_print_other_instruction val,
      emit '')'']"

definition ir_print_switch_br ::
  "bool \<Rightarrow> IrInstruction \<Rightarrow> size_t
    \<Rightarrow> (IrInstruction, IrBasicBlockRef) IrInstructionSwitchBrCase list \<Rightarrow> IrBasicBlockRef \<Rightarrow> out"
  where
  "ir_print_switch_br is_inl target_value case_count cases' else_block =
    seqs [
      emit ((if is_inl then ''inline '' else []) @ ''switch (''),
      ir_print_other_instruction target_value,
      emit '') '',
      for_loop 0 (unat case_count) (\<lambda>i.
        at_index cases' i (\<lambda>this_case.
          seqs [
            ir_print_other_instruction (case_value this_case),
            emit '' => '',
            ir_print_other_block (case_block this_case),
            emit '', ''])),
      emit ''else => '',
      ir_print_other_block else_block]"

definition ir_print_switch_var :: "IrInstruction \<Rightarrow> IrInstruction \<Rightarrow> out" where
  "ir_print_switch_var target_value_ptr prong_value =
    seqs [
      emit ''switchvar '',
      ir_print_other_instruction target_value_ptr,
      emit '', '',
      ir_print_other_instruction prong_value]"

definition ir_print_switch_target :: "IrInstruction \<Rightarrow> out" where
  "ir_print_switch_target target_value_ptr =
    seqs [
      emit ''switchtarget '',
      ir_print_other_instruction target_value_ptr]"

definition ir_print_enum_tag :: "IrInstruction \<Rightarrow> out" where
  "ir_print_enum_tag val =
    seqs [
      emit ''enumtag '',
      ir_print_other_instruction val]"

definition ir_print_static_eval :: "IrInstruction \<Rightarrow> out" where
  "ir_print_static_eval val =
    seqs [
      emit ''@staticEval('',
      ir_print_other_instruction val,
      emit '')'']"

definition ir_print_import :: "IrInstruction \<Rightarrow> out" where
  "ir_print_import name =
    seqs [
      emit ''@import('',
      ir_print_other_instruction name,
      emit '')'']"

definition ir_print_array_len :: "IrInstruction \<Rightarrow> out" where
  "ir_print_array_len array_value =
    seqs [
      ir_print_other_instruction array_value,
      emit ''.len'']"

definition ir_print_ref :: "IrInstruction \<Rightarrow> out" where
  "ir_print_ref val =
    seqs [
      emit ''ref '',
      ir_print_other_instruction val]"

subsection \<open>The dispatch on the kind, and the driver\<close>

definition ir_print_body ::
  "IrInstruction \<Rightarrow> (IrInstruction, IrBasicBlockRef) IrInstructionPayload \<Rightarrow> out" where
  "ir_print_body instruction_base p =
    (case p of
      IrInstructionInvalid \<Rightarrow> abort ZigUnreachable
    | IrInstructionReturn val \<Rightarrow> ir_print_return val
    | IrInstructionConst \<Rightarrow> ir_print_const instruction_base
    | IrInstructionBinOp op1 op_id op2 \<Rightarrow> ir_print_bin_op op1 op_id op2
    | IrInstructionDeclVar var var_type init_value \<Rightarrow> ir_print_decl_var var var_type init_value
    | IrInstructionCast val dest_type \<Rightarrow> ir_print_cast val dest_type
    | IrInstructionCall fn_entry fn_ref arg_count args \<Rightarrow>
        ir_print_call fn_entry fn_ref arg_count args
    | IrInstructionUnOp op_id val \<Rightarrow> ir_print_un_op op_id val
    | IrInstructionCondBr is_inl condition then_block else_block \<Rightarrow>
        ir_print_cond_br is_inl condition then_block else_block
    | IrInstructionBr is_inl dest_block \<Rightarrow> ir_print_br is_inl dest_block
    | IrInstructionPhi incoming_count incoming_blocks incoming_values \<Rightarrow>
        ir_print_phi incoming_count incoming_blocks incoming_values
    | IrInstructionContainerInitList container_type item_count items \<Rightarrow>
        ir_print_container_init_list container_type item_count items
    | IrInstructionContainerInitFields container_type field_count fields' \<Rightarrow>
        ir_print_container_init_fields container_type field_count fields'
    | IrInstructionStructInit struct_type field_count fields' \<Rightarrow>
        ir_print_struct_init struct_type field_count fields'
    | IrInstructionUnreachable \<Rightarrow> ir_print_unreachable
    | IrInstructionElemPtr array_ptr elem_index safety_check_on \<Rightarrow>
        ir_print_elem_ptr array_ptr elem_index safety_check_on
    | IrInstructionVarPtr var \<Rightarrow> ir_print_var_ptr var
    | IrInstructionLoadPtr ptr \<Rightarrow> ir_print_load_ptr ptr
    | IrInstructionStorePtr ptr val \<Rightarrow> ir_print_store_ptr ptr val
    | IrInstructionTypeOf val \<Rightarrow> ir_print_typeof val
    | IrInstructionToPtrType val \<Rightarrow> ir_print_to_ptr_type val
    | IrInstructionPtrTypeChild val \<Rightarrow> ir_print_ptr_type_child val
    | IrInstructionFieldPtr container_ptr field_name \<Rightarrow> ir_print_field_ptr container_ptr field_name
    | IrInstructionStructFieldPtr struct_ptr field \<Rightarrow> ir_print_struct_field_ptr struct_ptr field
    | IrInstructionEnumFieldPtr enum_ptr field \<Rightarrow> ir_print_enum_field_ptr enum_ptr field
    | IrInstructionSetFnTest fn_value is_test \<Rightarrow> ir_print_set_fn_test fn_value is_test
    | IrInstructionSetFnVisible fn_value is_visible \<Rightarrow> ir_print_set_fn_visible fn_value is_visible
    | IrInstructionSetDebugSafety scope_value debug_safety_on \<Rightarrow>
        ir_print_set_debug_safety scope_value debug_safety_on
    | IrInstructionArrayType size' child_type \<Rightarrow> ir_print_array_type size' child_type
    | IrInstructionSliceType is_const child_type \<Rightarrow> ir_print_slice_type is_const child_type
    | IrInstructionAsm has_side_effects output_types inputs \<Rightarrow>
        ir_print_asm instruction_base has_side_effects output_types inputs
    | IrInstructionCompileVar name \<Rightarrow> ir_print_compile_var name
    | IrInstructionSizeOf type_value \<Rightarrow> ir_print_size_of type_value
    | IrInstructionTestNull val \<Rightarrow> ir_print_test_null val
    | IrInstructionUnwrapMaybe val safety_check_on \<Rightarrow> ir_print_unwrap_maybe val safety_check_on
    | IrInstructionClz val \<Rightarrow> ir_print_clz val
    | IrInstructionCtz val \<Rightarrow> ir_print_ctz val
    | IrInstructionSwitchBr is_inl target_value case_count cases' else_block \<Rightarrow>
        ir_print_switch_br is_inl target_value case_count cases' else_block
    | IrInstructionSwitchVar target_value_ptr prong_value \<Rightarrow>
        ir_print_switch_var target_value_ptr prong_value
    | IrInstructionSwitchTarget target_value_ptr \<Rightarrow> ir_print_switch_target target_value_ptr
    | IrInstructionEnumTag val \<Rightarrow> ir_print_enum_tag val
    | IrInstructionStaticEval val \<Rightarrow> ir_print_static_eval val
    | IrInstructionImport name \<Rightarrow> ir_print_import name
    | IrInstructionArrayLen array_value \<Rightarrow> ir_print_array_len array_value
    | IrInstructionRef val \<Rightarrow> ir_print_ref val)"

definition ir_print_instruction :: "(IrInst \<Rightarrow> bool) \<Rightarrow> IrPrint \<Rightarrow> IrInst \<Rightarrow> out" where
  "ir_print_instruction has_side_effects irp instruction =
    seqs [
      ir_print_prefix has_side_effects irp instruction,
      ir_print_body (base instruction) (payload instruction),
      emit [CHR 0x0A]]"

definition ir_print :: "(IrInst \<Rightarrow> bool) \<Rightarrow> IrExecutable \<Rightarrow> int \<Rightarrow> out" where
  "ir_print has_side_effects executable indent_sz =
    (let irp = \<lparr>indent = indent_sz, indent_size = indent_sz\<rparr>
     in for_loop 0 (length (basic_block_list executable)) (\<lambda>bb_i.
          (let current_block = basic_block_list executable ! bb_i
           in seqs [
                emit (name_hint current_block @ ''_'' @ printf_zu (block_debug_id current_block)
                      @ '':'' @ [CHR 0x0A]),
                for_loop 0 (length (instruction_list current_block)) (\<lambda>instr_i.
                  (let instruction = instruction_list current_block ! instr_i
                   in ir_print_instruction has_side_effects irp instruction))])))"


section \<open>Sequencing, loops and conversions\<close>

lemma andthen_abort [simp]: "andthen (abort e) b = abort e"
  by (simp add: andthen_def abort_def)

lemma andthen_emit_Nil [simp]: "andthen (emit []) b = b" "andthen a (emit []) = a"
  by (auto simp: andthen_def emit_def prod_eq_iff split: option.splits)

lemma andthen_assoc: "andthen (andthen a b) c = andthen a (andthen b c)"
  by (simp add: andthen_def split: option.splits)

lemma andthen_emit_emit: "andthen (emit s) (emit t) = emit (s @ t)"
  by (simp add: emit_def andthen_def)

lemma andthen_emit_emit_assoc:
  "andthen (emit s) (andthen (emit t) b) = andthen (emit (s @ t)) b"
  by (simp add: emit_def andthen_def)

lemma snd_andthen_None: "snd (andthen a b) = None \<longleftrightarrow> snd a = None \<and> snd b = None"
  by (simp add: andthen_def split: option.splits)

lemma fst_andthen: "snd a = None \<Longrightarrow> fst (andthen a b) = fst a @ fst b"
  by (simp add: andthen_def)

lemma snd_emit [simp]: "snd (emit s) = None"
  by (simp add: emit_def)

lemma fst_emit [simp]: "fst (emit s) = s"
  by (simp add: emit_def)

lemma for_loop_seqs: "for_loop i n f = seqs (map f [i..<n])"
proof (induction i n f rule: for_loop.induct)
  case (1 i n body)
  show ?case
  proof (cases "i < n")
    case True
    then show ?thesis
      using 1 by (subst for_loop.simps) (simp add: upt_conv_Cons)
  next
    case False
    then show ?thesis
      by (subst for_loop.simps) simp
  qed
qed

lemma seqs_append: "seqs (xs @ ys) = andthen (seqs xs) (seqs ys)"
  by (induction xs) (simp_all add: andthen_assoc)

lemma seqs_map_cong:
  "(\<And>x. x \<in> set xs \<Longrightarrow> f x = g x) \<Longrightarrow> seqs (map f xs) = seqs (map g xs)"
  by (induction xs) auto

lemma separated_by_Cons:
  "separated_by sep (a # as) = andthen a (seqs (map (\<lambda>b. andthen (emit sep) b) as))"
  by (induction as arbitrary: a) (simp_all add: andthen_assoc)

lemma for_loop_separated:
  "for_loop 0 n (\<lambda>i. andthen (if 0 < i then emit sep else emit []) (f i))
    = separated_by sep (map f [0..<n])"
proof (cases n)
  case 0
  then show ?thesis by (simp add: for_loop_seqs)
next
  case (Suc m)
  let ?body = "\<lambda>i. andthen (if 0 < i then emit sep else emit []) (f i)"
  have split_range: "[0..<Suc m] = 0 # [Suc 0..<Suc m]"
    by (simp add: upt_conv_Cons)
  have "for_loop 0 n ?body = andthen (?body 0) (seqs (map ?body [Suc 0..<Suc m]))"
    unfolding Suc for_loop_seqs split_range by simp
  also have "?body 0 = f 0"
    by simp
  also have "seqs (map ?body [Suc 0..<Suc m])
      = seqs (map (\<lambda>b. andthen (emit sep) b) (map f [Suc 0..<Suc m]))"
    unfolding map_map comp_def by (rule seqs_map_cong) auto
  also have "andthen (f 0) \<dots> = separated_by sep (map f [0..<n])"
    unfolding Suc split_range by (simp add: separated_by_Cons del: upt_Suc)
  finally show ?thesis .
qed

lemma snd_separated_by_None:
  "snd (separated_by sep xs) = None \<longleftrightarrow> (\<forall>x\<in>set xs. snd x = None)"
  by (induction sep xs rule: separated_by.induct) (auto simp: snd_andthen_None)

lemma for_loop_nth: "for_loop 0 (length xs) (\<lambda>j. f (xs ! j)) = seqs (map f xs)"
proof -
  have "map (\<lambda>j. f (xs ! j)) [0..<length xs] = map f xs"
    by (rule nth_equalityI) simp_all
  then show ?thesis
    by (simp add: for_loop_seqs)
qed

lemma at_index_map: "at_index (map f xs) i k = at_index xs i (\<lambda>x. k (f x))"
  by (simp add: at_index_def)

lemma at_index_cong_set:
  "(\<And>x. x \<in> set xs \<Longrightarrow> k x = k' x) \<Longrightarrow> at_index xs i k = at_index xs i k'"
  by (simp add: at_index_def)

lemma for_loop_at_index_cong:
  "(\<And>i x. x \<in> set xs \<Longrightarrow> k i x = k' i x)
    \<Longrightarrow> for_loop a n (\<lambda>i. at_index xs i (k i)) = for_loop a n (\<lambda>i. at_index xs i (k' i))"
  by (rule for_loop_cong) (simp_all add: at_index_def)

text \<open>A text ends with what the last statement of a block writes, if the block gets there.\<close>

lemma ends_with_emit:
  assumes "snd (andthen a (emit s)) = None"
  shows "suffix s (fst (andthen a (emit s)))"
proof -
  have "snd a = None"
    using assms by (simp add: snd_andthen_None)
  then have "fst (andthen a (emit s)) = fst a @ s"
    by (simp add: fst_andthen)
  then show ?thesis
    by (simp only: suffix_def) blast
qed

lemma ends_with_after:
  assumes "snd (andthen a b) = None" and "snd b = None \<Longrightarrow> suffix s (fst b)"
  shows "suffix s (fst (andthen a b))"
proof -
  have "snd a = None" "snd b = None"
    using assms(1) by (simp_all add: snd_andthen_None)
  then show ?thesis
    using assms(2) by (simp only: fst_andthen suffix_appendI)
qed

lemma ends_with_emit3:
  "snd (andthen a (andthen b (andthen c (emit s)))) = None
    \<Longrightarrow> suffix s (fst (andthen a (andthen b (andthen c (emit s)))))"
  by (intro ends_with_after ends_with_emit)

lemma ends_with_emit2:
  "snd (andthen a (andthen b (emit s))) = None
    \<Longrightarrow> suffix s (fst (andthen a (andthen b (emit s))))"
  by (intro ends_with_after ends_with_emit)

subsection \<open>The decimal conversion\<close>

lemma digit_char_value: "d < 10 \<Longrightarrow> of_char (digit_char d) = 48 + d"
proof -
  assume "d < 10"
  then consider "d = 0" | "d = 1" | "d = 2" | "d = 3" | "d = 4" | "d = 5" | "d = 6" | "d = 7"
    | "d = 8" | "d = 9"
    by (auto simp: numeral_eq_Suc less_Suc_eq)
  then show ?thesis
    by cases (simp_all add: digit_char_def)
qed

text \<open>\<^const>\<open>decimal\<close> writes its argument in base 10, and with no leading zero.\<close>

lemma decimal_value_decimal: "decimal_value (decimal n) = n"
proof (induction n rule: decimal.induct)
  case (1 n)
  show ?case
  proof (cases "n < 10")
    case True
    then show ?thesis
      by (subst decimal.simps) (simp add: decimal_value_def digit_char_value)
  next
    case False
    then have "decimal_value (decimal (n div 10)) = n div 10"
      using 1 by simp
    then show ?thesis
      using False
      by (subst decimal.simps) (simp add: decimal_value_def digit_char_value)
  qed
qed

lemma decimal_no_leading_zero: "0 < n \<Longrightarrow> hd (decimal n) \<noteq> CHR ''0''"
proof (induction n rule: decimal.induct)
  case (1 n)
  show ?case
  proof (cases "n < 10")
    case True
    then consider "n = 1" | "n = 2" | "n = 3" | "n = 4" | "n = 5" | "n = 6" | "n = 7"
      | "n = 8" | "n = 9"
      using 1(2) by (auto simp: numeral_eq_Suc less_Suc_eq)
    then show ?thesis
      by cases (simp_all add: decimal.simps digit_char_def)
  next
    case False
    then have "hd (decimal (n div 10)) \<noteq> CHR ''0''"
      using 1 by simp
    moreover have "decimal (n div 10) \<noteq> []"
      by (subst decimal.simps) simp
    ultimately show ?thesis
      using False by (subst decimal.simps) simp
  qed
qed

subsection \<open>Which assertions a call can fail\<close>

lemma asserts_within_emit [intro!, simp]: "asserts_within S (emit s)"
  by (simp add: asserts_within_def)

lemma asserts_within_abort [simp]:
  "asserts_within S (abort ZigUnreachable)"
  "asserts_within S (abort Fault)"
  "asserts_within S (abort (AssertionFailed e)) \<longleftrightarrow> e \<in> S"
  by (simp_all add: asserts_within_def abort_def)

lemma asserts_within_andthen [intro!]:
  "asserts_within S a \<Longrightarrow> asserts_within S b \<Longrightarrow> asserts_within S (andthen a b)"
  by (auto simp: asserts_within_def andthen_def split: option.splits fatal.splits)

lemma asserts_within_seqs:
  "(\<And>x. x \<in> set xs \<Longrightarrow> asserts_within S x) \<Longrightarrow> asserts_within S (seqs xs)"
  by (induction xs) auto

lemma asserts_within_for_loop [intro!]:
  "(\<And>k. i \<le> k \<Longrightarrow> k < n \<Longrightarrow> asserts_within S (f k)) \<Longrightarrow> asserts_within S (for_loop i n f)"
  unfolding for_loop_seqs by (rule asserts_within_seqs) auto

lemma asserts_within_at_index [intro!]:
  "(i < length xs \<Longrightarrow> asserts_within S (k (xs ! i))) \<Longrightarrow> asserts_within S (at_index xs i k)"
  by (simp add: at_index_def)

subsection \<open>Evaluation on concrete instructions\<close>

lemma replicate_numeral: "replicate (numeral k) x = x # replicate (pred_numeral k) x"
  by (simp add: numeral_eq_Suc)

lemmas eval_simps =
  emit_def abort_def andthen_def for_loop.simps at_index_def printf_zu_def printf_left_def
  decimal.simps digit_char_def replicate_numeral ir_print_other_instruction.simps
  ir_print_const_instruction.simps ir_print_const_value.simps ir_print_var_instruction_def
  ir_print_other_block_def

section \<open>Lemmas about the functions of the printer\<close>

lemma other_instruction_runtime:
  "special (static_value i) = ConstValSpecialRuntime \<Longrightarrow>
    ir_print_other_instruction i = emit (''#'' @ printf_zu (debug_id i))"
  by (simp add: ir_print_other_instruction.simps ir_print_var_instruction_def)

lemma other_instruction_inline:
  "special (static_value i) \<noteq> ConstValSpecialRuntime \<Longrightarrow>
    ir_print_other_instruction i = ir_print_const_value (type_entry i) (static_value i)"
  by (simp add: ir_print_other_instruction.simps ir_print_const_instruction.simps)

text \<open>
  The value renderer and the operand renderer have two assertions, both on the kind of
  a number.
\<close>

lemma value_asserts:
  shows "asserts_within {''bignum->kind == BigNumKindInt'', ''bignum->kind == BigNumKindFloat''}
      (ir_print_const_value te v)"
    and "asserts_within {''bignum->kind == BigNumKindInt'', ''bignum->kind == BigNumKindFloat''}
      (ir_print_const_instruction i)"
    and "asserts_within {''bignum->kind == BigNumKindInt'', ''bignum->kind == BigNumKindFloat''}
      (ir_print_other_instruction i')"
proof (induction te v and i and i'
    rule: ir_print_const_value_ir_print_const_instruction_ir_print_other_instruction.induct)
  case (1 te v)
  show ?case
    by (subst ir_print_const_value.simps)
      (use 1 in \<open>auto split: ConstValSpecial.splits option.splits TypeTableEntryId.splits
        TypeTableEntryData.splits ConstData.splits BigNumData.splits\<close>)
next
  case (2 i)
  then show ?case
    by (simp add: ir_print_const_instruction.simps)
next
  case (3 i)
  then show ?case
    by (simp add: ir_print_other_instruction.simps ir_print_var_instruction_def)
qed

lemma seqs_replicate_emit: "seqs (replicate n (emit s)) = emit (concat (replicate n s))"
  by (induction n) (simp_all add: andthen_emit_emit)

lemma ir_print_indent_text: "ir_print_indent irp = emit (replicate (nat (indent irp)) CHR '' '')"
proof -
  have "map (\<lambda>i. emit '' '') [0..<n] = replicate n (emit '' '')" for n :: nat
    by (induction n) (simp_all add: replicate_append_same)
  moreover have "concat (replicate n '' '') = replicate n CHR '' ''" for n :: nat
    by (induction n) simp_all
  ultimately show ?thesis
    by (simp add: ir_print_indent_def for_loop_seqs seqs_replicate_emit)
qed

lemma ir_print_prefix_text:
  "ir_print_prefix hs irp i =
    emit (replicate (nat (indent irp)) CHR '' '' @ ''#''
      @ printf_left 3 (printf_zu (debug_id (base i))) @ ''| ''
      @ printf_left 12 (case type_entry (base i) of Some t \<Rightarrow> type_name t | None \<Rightarrow> ''(unknown)'')
      @ ''| ''
      @ printf_left 2 (if hs i then ''-'' else printf_zu (ref_count (base i))) @ ''| '')"
  by (simp add: ir_print_prefix_def ir_print_indent_text andthen_emit_emit Let_def)

lemma ir_print_phi_loop:
  assumes "incoming_count \<noteq> 0" and "incoming_count \<noteq> SIZE_MAX"
    and "unat incoming_count \<le> length incoming_blocks"
    and "unat incoming_count \<le> length incoming_values"
  shows "ir_print_phi incoming_count incoming_blocks incoming_values
    = separated_by '' '' (map (\<lambda>i.
        seqs [
          emit (''$'' @ name_hint (incoming_blocks ! i) @ ''_''
                @ printf_zu (block_debug_id (incoming_blocks ! i)) @ '':''),
          ir_print_other_instruction (incoming_values ! i)]) [0..<unat incoming_count])"
proof -
  have "for_loop 0 (unat incoming_count) (\<lambda>i.
         at_index incoming_blocks i (\<lambda>incoming_block.
           at_index incoming_values i (\<lambda>incoming_value.
             seqs [
               (if i \<noteq> 0 then emit '' '' else emit []),
               ir_print_other_block incoming_block,
               emit '':'',
               ir_print_other_instruction incoming_value])))
     = for_loop 0 (unat incoming_count) (\<lambda>i.
         andthen (if 0 < i then emit '' '' else emit [])
           (seqs [
              emit (''$'' @ name_hint (incoming_blocks ! i) @ ''_''
                    @ printf_zu (block_debug_id (incoming_blocks ! i)) @ '':''),
              ir_print_other_instruction (incoming_values ! i)]))"
    using assms(3,4)
    by (intro for_loop_cong)
      (simp_all add: at_index_def ir_print_other_block_def andthen_emit_emit_assoc)
  then show ?thesis
    using assms(1,2) by (simp add: ir_print_phi_def for_loop_separated)
qed

lemmas ir_print_kind_defs =
  ir_print_return_def ir_print_const_def ir_print_un_op_def ir_print_bin_op_def
  ir_print_decl_var_def ir_print_cast_def ir_print_call_def ir_print_cond_br_def ir_print_br_def
  ir_print_phi_def ir_print_container_init_list_def ir_print_container_init_fields_def
  ir_print_struct_init_def ir_print_unreachable_def ir_print_elem_ptr_def ir_print_var_ptr_def
  ir_print_load_ptr_def ir_print_store_ptr_def ir_print_typeof_def ir_print_to_ptr_type_def
  ir_print_ptr_type_child_def ir_print_field_ptr_def ir_print_struct_field_ptr_def
  ir_print_enum_field_ptr_def ir_print_set_fn_test_def ir_print_set_fn_visible_def
  ir_print_set_debug_safety_def ir_print_array_type_def ir_print_slice_type_def ir_print_asm_def
  ir_print_compile_var_def ir_print_size_of_def ir_print_test_null_def ir_print_unwrap_maybe_def
  ir_print_clz_def ir_print_ctz_def ir_print_switch_br_def ir_print_switch_var_def
  ir_print_switch_target_def ir_print_enum_tag_def ir_print_static_eval_def ir_print_import_def
  ir_print_array_len_def ir_print_ref_def

text \<open>
  The text of an instruction depends on its operands through
  \<^verbatim>\<open>ir_print_other_instruction\<close> alone, but for the destination of a store, of which it
  takes the debug id.
\<close>

lemma body_operands_cong:
  assumes "\<And>x. x \<in> operands_of p
        \<Longrightarrow> ir_print_other_instruction (f x) = ir_print_other_instruction x"
      and "\<And>ptr v. p = IrInstructionStorePtr ptr v \<Longrightarrow> debug_id (f ptr) = debug_id ptr"
  shows "ir_print_body b (map_payload f id p) = ir_print_body b p"
proof (cases p)
  case (IrInstructionCall fn_entry fn_ref arg_count args)
  then show ?thesis
    using assms(1)
    by (auto simp: ir_print_body_def ir_print_call_def at_index_map
        intro!: arg_cong2 [where f = andthen] for_loop_at_index_cong split: option.splits)
next
  case (IrInstructionPhi n bs vs)
  then show ?thesis
    using assms(1)
    by (auto simp: ir_print_body_def ir_print_phi_def at_index_map
        intro!: for_loop_cong at_index_cong_set)
next
  case (IrInstructionContainerInitList c n xs)
  then show ?thesis
    using assms(1)
    by (auto simp: ir_print_body_def ir_print_container_init_list_def at_index_map
        intro!: arg_cong2 [where f = andthen] for_loop_at_index_cong)
next
  case (IrInstructionContainerInitFields c n xs)
  then show ?thesis
    using assms(1)
    by (auto simp: ir_print_body_def ir_print_container_init_fields_def at_index_map
        IrInstructionContainerInitFieldsField.map_sel
        intro!: arg_cong2 [where f = andthen] for_loop_at_index_cong
        intro: IrInstructionContainerInitFieldsField.set_sel)
next
  case (IrInstructionStructInit c n xs)
  then show ?thesis
    using assms(1)
    by (auto simp: ir_print_body_def ir_print_struct_init_def at_index_map
        IrInstructionStructInitField.map_sel
        intro!: arg_cong2 [where f = andthen] for_loop_at_index_cong
        intro: IrInstructionStructInitField.set_sel)
next
  case (IrInstructionAsm hs outs ins)
  then show ?thesis
    using assms(1)
    by (auto simp: ir_print_body_def ir_print_asm_def at_index_map Let_def
        intro!: arg_cong2 [where f = andthen] for_loop_cong at_index_cong_set
        split: AstNodeData.splits option.splits)
next
  case (IrInstructionSwitchBr inl tv n cs eb)
  then show ?thesis
    using assms(1)
    by (auto simp: ir_print_body_def ir_print_switch_br_def at_index_map
        IrInstructionSwitchBrCase.map_sel
        intro!: arg_cong2 [where f = andthen] for_loop_at_index_cong
        intro: IrInstructionSwitchBrCase.set_sel)
next
  case (IrInstructionStorePtr ptr v)
  then show ?thesis
    using assms by (simp add: ir_print_body_def ir_print_store_ptr_def ir_print_var_instruction_def)
qed (use assms(1) in
    \<open>simp_all add: ir_print_body_def ir_print_kind_defs Let_def split: option.splits\<close>)

section \<open>Properties of the value renderer\<close>

text \<open>
  C3. \<^verbatim>\<open>ir_print_const_value\<close> switches on the evaluation state before it looks at the
  type: whatever the type pointer is (NULL included) and whatever the value's data, an
  undefined value is written as \<^verbatim>\<open>undefined\<close>, a zeroed value as \<^verbatim>\<open>zeroes\<close>, and a runtime
  value stops the process in \<^verbatim>\<open>zig_unreachable()\<close> with nothing written.
\<close>

theorem const_value_special_first:
  "ir_print_const_value te (ConstExprValue ConstValSpecialUndef d) = emit ''undefined''
   \<and> ir_print_const_value te (ConstExprValue ConstValSpecialZeroes d) = emit ''zeroes''
   \<and> ir_print_const_value te (ConstExprValue ConstValSpecialRuntime d) = abort ZigUnreachable"
  by (simp add: ir_print_const_value.simps)

theorem const_value_special_first_witness:
  "ir_print_const_value (Some (TypeTableEntry TypeTableEntryIdBool ''bool'' no_type_data))
      (ConstExprValue ConstValSpecialUndef (x_bool True)) = (''undefined'', None)
   \<and> ir_print_const_value (Some (TypeTableEntry TypeTableEntryIdBool ''bool'' no_type_data))
      (ConstExprValue ConstValSpecialZeroes (x_bool True)) = (''zeroes'', None)
   \<and> ir_print_const_value (Some (TypeTableEntry TypeTableEntryIdBool ''bool'' no_type_data))
      (ConstExprValue ConstValSpecialRuntime (x_bool True)) = ([], Some ZigUnreachable)"
  using const_value_special_first
    [of "Some (TypeTableEntry TypeTableEntryIdBool ''bool'' no_type_data)" "x_bool True"]
  by (simp add: emit_def abort_def)

text \<open>
  C6. A statically known value of a bound-function type is written as \<^verbatim>\<open>bound \<close>, the
  function's symbol name, \<^verbatim>\<open> to \<close>, and then whatever \<^verbatim>\<open>ir_print_other_instruction\<close> writes
  for the captured first argument. For the symbol \<^verbatim>\<open>foo\<close> and a runtime first argument with
  debug id 7 the text is exactly \<^verbatim>\<open>bound foo to #7\<close>.
\<close>

theorem bound_fn_value:
  "ir_print_const_value (Some (TypeTableEntry TypeTableEntryIdBoundFn nm td))
      (ConstExprValue ConstValSpecialStatic (x_bound_fn fn first_arg))
    = seqs [emit (''bound '' @ symbol_name fn @ '' to ''), ir_print_other_instruction first_arg]
   \<and> ir_print_const_value (Some (TypeTableEntry TypeTableEntryIdBoundFn nm td))
      (ConstExprValue ConstValSpecialStatic
        (x_bound_fn \<lparr>symbol_name = ''foo''\<rparr>
          (IrInstruction te (ConstExprValue ConstValSpecialRuntime d) 7 rc sn)))
    = emit ''bound foo to #7''"
  by (simp add: ir_print_const_value.simps other_instruction_runtime printf_zu_def
      decimal.simps digit_char_def andthen_emit_emit)

theorem bound_fn_value_witness:
  "ir_print_const_value (Some (TypeTableEntry TypeTableEntryIdBoundFn ''(bound fn)'' no_type_data))
      (ConstExprValue ConstValSpecialStatic
        (x_bound_fn \<lparr>symbol_name = ''foo''\<rparr>
          (IrInstruction None (ConstExprValue ConstValSpecialRuntime no_data) 7 0
            \<lparr>line = 0, column = 0, node_data = NodeTypeOther\<rparr>)))
    = (''bound foo to #7'', None)"
  using bound_fn_value [THEN conjunct2, of "''(bound fn)''" no_type_data None no_data 0
      "\<lparr>line = 0, column = 0, node_data = NodeTypeOther\<rparr>"]
  by (simp add: emit_def)

text \<open>
  C7. A statically known value of an array type whose \<^verbatim>\<open>len\<close> elements are all there is
  written as the type's name, \<^verbatim>\<open>{\<close>, the first \<^verbatim>\<open>len\<close> elements, each written by
  \<^verbatim>\<open>ir_print_const_value\<close> at the array's child type, with a comma between two elements
  and none after the last, and \<^verbatim>\<open>}\<close>. Three zeroed elements of \<^verbatim>\<open>[3]u8\<close> give
  \<^verbatim>\<open>[3]u8{zeroes,zeroes,zeroes}\<close>, three statically known integers 0 give \<^verbatim>\<open>[3]u8{0,0,0}\<close>.
\<close>

theorem array_value:
  assumes "unat len \<le> length elements"
  shows "ir_print_const_value (Some (TypeTableEntry TypeTableEntryIdArray nm (array child_type len)))
        (ConstExprValue ConstValSpecialStatic (x_array elements))
      = seqs [
          emit (nm @ ''{''),
          separated_by '',''
            (map (ir_print_const_value (Some child_type)) (take (unat len) elements)),
          emit ''}'']
    \<and> ir_print_const_value (Some (TypeTableEntry TypeTableEntryIdArray ''[3]u8'' (array elem_type 3)))
        (ConstExprValue ConstValSpecialStatic
          (x_array [ConstExprValue ConstValSpecialZeroes d1, ConstExprValue ConstValSpecialZeroes d2,
                    ConstExprValue ConstValSpecialZeroes d3]))
      = emit ''[3]u8{zeroes,zeroes,zeroes}''
    \<and> ir_print_const_value
        (Some (TypeTableEntry TypeTableEntryIdArray ''[3]u8''
                (array (TypeTableEntry TypeTableEntryIdInt ''u8'' td) 3)))
        (ConstExprValue ConstValSpecialStatic
          (x_array [
            ConstExprValue ConstValSpecialStatic
              (x_bignum \<lparr>kind = BigNumKindInt, is_negative = False, bignum_data = x_uint 0\<rparr>),
            ConstExprValue ConstValSpecialStatic
              (x_bignum \<lparr>kind = BigNumKindInt, is_negative = False, bignum_data = x_uint 0\<rparr>),
            ConstExprValue ConstValSpecialStatic
              (x_bignum \<lparr>kind = BigNumKindInt, is_negative = False, bignum_data = x_uint 0\<rparr>)]))
      = emit ''[3]u8{0,0,0}''"
    (is "?general \<and> ?zeroed \<and> ?zero_integers")
proof (intro conjI)
  have "map (\<lambda>i. at_index elements i (ir_print_const_value (Some child_type))) [0..<unat len]
      = map (ir_print_const_value (Some child_type)) (take (unat len) elements)"
    using assms by (intro nth_equalityI) (simp_all add: at_index_def)
  then show ?general
    by (simp add: ir_print_const_value.simps for_loop_separated)
  show ?zeroed
    by (simp add: eval_simps)
  show ?zero_integers
    by (simp add: eval_simps)
qed

theorem array_value_witness:
  "ir_print_const_value
      (Some (TypeTableEntry TypeTableEntryIdArray ''[3]u8''
              (array (TypeTableEntry TypeTableEntryIdInt ''u8'' no_type_data) 3)))
      (ConstExprValue ConstValSpecialStatic
        (x_array [
          ConstExprValue ConstValSpecialZeroes no_data,
          ConstExprValue ConstValSpecialStatic
            (x_bignum \<lparr>kind = BigNumKindInt, is_negative = False, bignum_data = x_uint 0\<rparr>),
          ConstExprValue ConstValSpecialUndef no_data]))
    = (''[3]u8{zeroes,0,undefined}'', None)"
  using array_value [THEN conjunct1, of 3
      "[ConstExprValue ConstValSpecialZeroes no_data,
        ConstExprValue ConstValSpecialStatic
          (x_bignum \<lparr>kind = BigNumKindInt, is_negative = False, bignum_data = x_uint 0\<rparr>),
        ConstExprValue ConstValSpecialUndef no_data]"
      "''[3]u8''" "TypeTableEntry TypeTableEntryIdInt ''u8'' no_type_data"]
  by (simp add: eval_simps)

section \<open>Properties of the operand renderer\<close>

text \<open>
  C1, as amended. \<^verbatim>\<open>ir_print_other_instruction\<close> writes \<^verbatim>\<open>#\<close> and the debug id for an
  operand in the runtime state, and the value, through \<^verbatim>\<open>ir_print_const_value\<close>, for an
  operand in any other state. Every kind of instruction writes its operands through it:
  replacing the operands by instructions for which it writes the same leaves the text
  of the instruction unchanged. The one exception is the destination of a store, which
  \<^verbatim>\<open>ir_print_store_ptr\<close> writes as \<^verbatim>\<open>#\<close> and its debug id whatever its state.
\<close>

theorem operand_reference_or_inline:
  "(special (static_value operand) = ConstValSpecialRuntime \<longrightarrow>
      ir_print_other_instruction operand = emit (''#'' @ printf_zu (debug_id operand)))
   \<and> (special (static_value operand) \<noteq> ConstValSpecialRuntime \<longrightarrow>
      ir_print_other_instruction operand
        = ir_print_const_value (type_entry operand) (static_value operand))
   \<and> ir_print_store_ptr ptr val
        = seqs [emit (''*#'' @ printf_zu (debug_id ptr) @ '' = ''), ir_print_other_instruction val]
   \<and> ((\<forall>x\<in>operands_of p. ir_print_other_instruction (f x) = ir_print_other_instruction x)
        \<and> (\<forall>ptr' val'. p = IrInstructionStorePtr ptr' val' \<longrightarrow> debug_id (f ptr') = debug_id ptr')
       \<longrightarrow> ir_print_body b (map_payload f id p) = ir_print_body b p)"
    (is "?runtime \<and> ?inline \<and> ?store \<and> ?every_place")
proof (intro conjI)
  show ?runtime
    by (simp add: other_instruction_runtime)
  show ?inline
    by (simp add: other_instruction_inline)
  show ?store
    by (simp add: ir_print_store_ptr_def ir_print_var_instruction_def andthen_emit_emit_assoc)
  show ?every_place
    by (auto intro!: body_operands_cong)
qed

theorem operand_reference_or_inline_witness:
  "ir_print_other_instruction
      (IrInstruction None (ConstExprValue ConstValSpecialRuntime no_data) 3 1
        \<lparr>line = 0, column = 0, node_data = NodeTypeOther\<rparr>)
    = (''#3'', None)
   \<and> ir_print_other_instruction
      (IrInstruction (Some (TypeTableEntry TypeTableEntryIdBool ''bool'' no_type_data))
        (ConstExprValue ConstValSpecialStatic (x_bool True)) 2 1
        \<lparr>line = 0, column = 0, node_data = NodeTypeOther\<rparr>)
    = (''true'', None)
   \<and> ir_print_body
      (IrInstruction None (ConstExprValue ConstValSpecialRuntime no_data) 9 1
        \<lparr>line = 0, column = 0, node_data = NodeTypeOther\<rparr>)
      (IrInstructionBinOp
        (IrInstruction None (ConstExprValue ConstValSpecialRuntime no_data) 3 0
          \<lparr>line = 0, column = 0, node_data = NodeTypeOther\<rparr>)
        IrBinOpCmpEq
        (IrInstruction (Some (TypeTableEntry TypeTableEntryIdBool ''bool'' no_type_data))
          (ConstExprValue ConstValSpecialStatic (x_bool True)) 2 0
          \<lparr>line = 0, column = 0, node_data = NodeTypeOther\<rparr>))
    = (''#3 == true'', None)"
  using
    operand_reference_or_inline [THEN conjunct1,
      of "IrInstruction None (ConstExprValue ConstValSpecialRuntime no_data) 3 1
            \<lparr>line = 0, column = 0, node_data = NodeTypeOther\<rparr>"]
    operand_reference_or_inline [THEN conjunct2, THEN conjunct1,
      of "IrInstruction (Some (TypeTableEntry TypeTableEntryIdBool ''bool'' no_type_data))
            (ConstExprValue ConstValSpecialStatic (x_bool True)) 2 1
            \<lparr>line = 0, column = 0, node_data = NodeTypeOther\<rparr>"]
    operand_reference_or_inline [THEN conjunct2, THEN conjunct2, THEN conjunct2,
      of "IrInstructionBinOp
            (IrInstruction None (ConstExprValue ConstValSpecialRuntime no_data) 3 1
              \<lparr>line = 0, column = 0, node_data = NodeTypeOther\<rparr>)
            IrBinOpCmpEq
            (IrInstruction (Some (TypeTableEntry TypeTableEntryIdBool ''bool'' no_type_data))
              (ConstExprValue ConstValSpecialStatic (x_bool True)) 2 1
              \<lparr>line = 0, column = 0, node_data = NodeTypeOther\<rparr>)"
         "\<lambda>x. IrInstruction (type_entry x) (static_value x) (debug_id x) 0 (source_node x)"
         "IrInstruction None (ConstExprValue ConstValSpecialRuntime no_data) 9 1
            \<lparr>line = 0, column = 0, node_data = NodeTypeOther\<rparr>"]
  by (simp add: eval_simps ir_print_body_def ir_print_bin_op_def)

theorem store_ptr_destination_counterexample:
  "special (static_value
      (IrInstruction
        (Some (TypeTableEntry TypeTableEntryIdPointer ''&bool''
                (pointer (TypeTableEntry TypeTableEntryIdBool ''bool'' no_type_data))))
        (ConstExprValue ConstValSpecialStatic
          (x_ptr (ConstExprValue ConstValSpecialStatic (x_bool True)))) 2 1
        \<lparr>line = 0, column = 0, node_data = NodeTypeOther\<rparr>)) = ConstValSpecialStatic
   \<and> ir_print_const_instruction
      (IrInstruction
        (Some (TypeTableEntry TypeTableEntryIdPointer ''&bool''
                (pointer (TypeTableEntry TypeTableEntryIdBool ''bool'' no_type_data))))
        (ConstExprValue ConstValSpecialStatic
          (x_ptr (ConstExprValue ConstValSpecialStatic (x_bool True)))) 2 1
        \<lparr>line = 0, column = 0, node_data = NodeTypeOther\<rparr>)
    = (''&true'', None)
   \<and> ir_print_body
      (IrInstruction None (ConstExprValue ConstValSpecialRuntime no_data) 9 1
        \<lparr>line = 0, column = 0, node_data = NodeTypeOther\<rparr>)
      (IrInstructionStorePtr
        (IrInstruction
          (Some (TypeTableEntry TypeTableEntryIdPointer ''&bool''
                  (pointer (TypeTableEntry TypeTableEntryIdBool ''bool'' no_type_data))))
          (ConstExprValue ConstValSpecialStatic
            (x_ptr (ConstExprValue ConstValSpecialStatic (x_bool True)))) 2 1
          \<lparr>line = 0, column = 0, node_data = NodeTypeOther\<rparr>)
        (IrInstruction None (ConstExprValue ConstValSpecialRuntime no_data) 3 1
          \<lparr>line = 0, column = 0, node_data = NodeTypeOther\<rparr>))
    = (''*#2 = #3'', None)"
  by (simp add: eval_simps ir_print_body_def ir_print_store_ptr_def)

section \<open>Properties of the instruction renderer\<close>

text \<open>
  C2, as amended. A Phi whose count is neither 0 nor \<^verbatim>\<open>SIZE_MAX\<close> and whose two arrays
  hold that many entries writes its pairs with one space between two pairs; a pair is
  \<^verbatim>\<open>$\<close>, the block's name hint, \<^verbatim>\<open>_\<close>, the block's debug id, a colon and the incoming
  value as an operand. For the blocks \<^verbatim>\<open>then\<close> (id 0) and \<^verbatim>\<open>else\<close> (id 1) and runtime
  values with ids 3 and 4 the text is exactly \<^verbatim>\<open>$then_0:#3 $else_1:#4\<close>.
\<close>

theorem phi_pairs_text:
  assumes "incoming_count \<noteq> 0" and "incoming_count \<noteq> SIZE_MAX"
    and "unat incoming_count \<le> length incoming_blocks"
    and "unat incoming_count \<le> length incoming_values"
  shows "ir_print_phi incoming_count incoming_blocks incoming_values
      = separated_by '' '' (map (\<lambda>i.
          seqs [
            emit (''$'' @ name_hint (incoming_blocks ! i) @ ''_''
                  @ printf_zu (block_debug_id (incoming_blocks ! i)) @ '':''),
            ir_print_other_instruction (incoming_values ! i)]) [0..<unat incoming_count])
    \<and> ir_print_phi 2
        [\<lparr>name_hint = ''then'', block_debug_id = 0\<rparr>, \<lparr>name_hint = ''else'', block_debug_id = 1\<rparr>]
        [IrInstruction te3 (ConstExprValue ConstValSpecialRuntime d3) 3 rc3 sn3,
         IrInstruction te4 (ConstExprValue ConstValSpecialRuntime d4) 4 rc4 sn4]
      = emit ''$then_0:#3 $else_1:#4''"
    (is "?pairs \<and> ?example")
proof (intro conjI)
  show ?pairs
    using assms by (rule ir_print_phi_loop)
  show ?example
    by (simp add: eval_simps ir_print_phi_def SIZE_MAX_def)
qed

theorem phi_pairs_text_witness:
  "ir_print_phi 2
      [\<lparr>name_hint = ''then'', block_debug_id = 0\<rparr>, \<lparr>name_hint = ''else'', block_debug_id = 1\<rparr>]
      [IrInstruction None (ConstExprValue ConstValSpecialRuntime no_data) 3 1
         \<lparr>line = 0, column = 0, node_data = NodeTypeOther\<rparr>,
       IrInstruction (Some (TypeTableEntry TypeTableEntryIdBool ''bool'' no_type_data))
         (ConstExprValue ConstValSpecialStatic (x_bool False)) 4 1
         \<lparr>line = 0, column = 0, node_data = NodeTypeOther\<rparr>]
    = (''$then_0:#3 $else_1:false'', None)"
  using phi_pairs_text [THEN conjunct1, of 2
      "[\<lparr>name_hint = ''then'', block_debug_id = 0\<rparr>, \<lparr>name_hint = ''else'', block_debug_id = 1\<rparr>]"
      "[IrInstruction None (ConstExprValue ConstValSpecialRuntime no_data) 3 1
          \<lparr>line = 0, column = 0, node_data = NodeTypeOther\<rparr>,
        IrInstruction (Some (TypeTableEntry TypeTableEntryIdBool ''bool'' no_type_data))
          (ConstExprValue ConstValSpecialStatic (x_bool False)) 4 1
          \<lparr>line = 0, column = 0, node_data = NodeTypeOther\<rparr>]"]
  by (simp add: eval_simps SIZE_MAX_def upt_conv_Cons)

theorem phi_block_token_counterexample:
  "ir_print_body
      (IrInstruction None (ConstExprValue ConstValSpecialRuntime no_data) 5 1
        \<lparr>line = 0, column = 0, node_data = NodeTypeOther\<rparr>)
      (IrInstructionPhi 2
        [\<lparr>name_hint = ''then'', block_debug_id = 0\<rparr>, \<lparr>name_hint = ''else'', block_debug_id = 1\<rparr>]
        [IrInstruction None (ConstExprValue ConstValSpecialRuntime no_data) 3 1
           \<lparr>line = 0, column = 0, node_data = NodeTypeOther\<rparr>,
         IrInstruction None (ConstExprValue ConstValSpecialRuntime no_data) 4 1
           \<lparr>line = 0, column = 0, node_data = NodeTypeOther\<rparr>])
    = (''$then_0:#3 $else_1:#4'', None)
   \<and> ir_print_body
      (IrInstruction None (ConstExprValue ConstValSpecialRuntime no_data) 5 1
        \<lparr>line = 0, column = 0, node_data = NodeTypeOther\<rparr>)
      (IrInstructionPhi 2
        [\<lparr>name_hint = ''then'', block_debug_id = 0\<rparr>, \<lparr>name_hint = ''else'', block_debug_id = 1\<rparr>]
        [IrInstruction None (ConstExprValue ConstValSpecialRuntime no_data) 3 1
           \<lparr>line = 0, column = 0, node_data = NodeTypeOther\<rparr>,
         IrInstruction None (ConstExprValue ConstValSpecialRuntime no_data) 4 1
           \<lparr>line = 0, column = 0, node_data = NodeTypeOther\<rparr>])
    \<noteq> (''then_0:#3 else_1:#4'', None)"
  by (simp add: eval_simps ir_print_body_def ir_print_phi_def SIZE_MAX_def)

text \<open>
  C9. \<^verbatim>\<open>ir_print_phi\<close> asserts that the incoming count is neither 0 nor \<^verbatim>\<open>SIZE_MAX\<close>: with
  either count it stops in that assertion, with nothing written. With any other count it
  never stops in either of the two assertions, whatever the operands are; and when the
  two arrays hold that many entries and each incoming value can be written as an
  operand, it writes the Phi without stopping at all.
\<close>

theorem phi_incoming_count_contract:
  "ir_print_phi 0 incoming_blocks incoming_values
      = abort (AssertionFailed ''phi_instruction->incoming_count != 0'')
   \<and> ir_print_phi SIZE_MAX incoming_blocks incoming_values
      = abort (AssertionFailed ''phi_instruction->incoming_count != SIZE_MAX'')
   \<and> (incoming_count \<noteq> 0 \<and> incoming_count \<noteq> SIZE_MAX \<longrightarrow>
        snd (ir_print_phi incoming_count incoming_blocks incoming_values)
          \<noteq> Some (AssertionFailed ''phi_instruction->incoming_count != 0'')
        \<and> snd (ir_print_phi incoming_count incoming_blocks incoming_values)
          \<noteq> Some (AssertionFailed ''phi_instruction->incoming_count != SIZE_MAX''))
   \<and> (incoming_count \<noteq> 0 \<and> incoming_count \<noteq> SIZE_MAX
        \<and> unat incoming_count \<le> length incoming_blocks
        \<and> unat incoming_count \<le> length incoming_values
        \<and> (\<forall>i < unat incoming_count.
              snd (ir_print_other_instruction (incoming_values ! i)) = None) \<longrightarrow>
        snd (ir_print_phi incoming_count incoming_blocks incoming_values) = None)"
proof -
  let ?S = "{''bignum->kind == BigNumKindInt'', ''bignum->kind == BigNumKindFloat''}"
  have "asserts_within ?S (ir_print_phi incoming_count incoming_blocks incoming_values)"
    if "incoming_count \<noteq> 0" "incoming_count \<noteq> SIZE_MAX"
    using that value_asserts(3)
    by (auto simp: ir_print_phi_def ir_print_other_block_def)
  then have not_own: "incoming_count \<noteq> 0 \<and> incoming_count \<noteq> SIZE_MAX \<longrightarrow>
        snd (ir_print_phi incoming_count incoming_blocks incoming_values)
          \<noteq> Some (AssertionFailed ''phi_instruction->incoming_count != 0'')
        \<and> snd (ir_print_phi incoming_count incoming_blocks incoming_values)
          \<noteq> Some (AssertionFailed ''phi_instruction->incoming_count != SIZE_MAX'')"
    by (auto simp: asserts_within_def split: option.splits fatal.splits)
  have returns: "snd (ir_print_phi incoming_count incoming_blocks incoming_values) = None"
    if "incoming_count \<noteq> 0" "incoming_count \<noteq> SIZE_MAX"
      "unat incoming_count \<le> length incoming_blocks"
      "unat incoming_count \<le> length incoming_values"
      "\<forall>i < unat incoming_count. snd (ir_print_other_instruction (incoming_values ! i)) = None"
    using that
    by (simp add: ir_print_phi_loop snd_separated_by_None snd_andthen_None)
  show ?thesis
    using not_own returns by (simp add: ir_print_phi_def SIZE_MAX_def)
qed

theorem phi_incoming_count_contract_witness:
  "snd (ir_print_phi 1 [\<lparr>name_hint = ''entry'', block_debug_id = 0\<rparr>]
      [IrInstruction None (ConstExprValue ConstValSpecialRuntime no_data) 3 1
         \<lparr>line = 0, column = 0, node_data = NodeTypeOther\<rparr>]) = None
   \<and> ir_print_phi 0 [\<lparr>name_hint = ''entry'', block_debug_id = 0\<rparr>]
      [IrInstruction None (ConstExprValue ConstValSpecialRuntime no_data) 3 1
         \<lparr>line = 0, column = 0, node_data = NodeTypeOther\<rparr>]
     = ([], Some (AssertionFailed ''phi_instruction->incoming_count != 0''))
   \<and> ir_print_phi (- 1) [\<lparr>name_hint = ''entry'', block_debug_id = 0\<rparr>]
      [IrInstruction None (ConstExprValue ConstValSpecialRuntime no_data) 3 1
         \<lparr>line = 0, column = 0, node_data = NodeTypeOther\<rparr>]
     = ([], Some (AssertionFailed ''phi_instruction->incoming_count != SIZE_MAX''))"
  using phi_incoming_count_contract [of "[\<lparr>name_hint = ''entry'', block_debug_id = 0\<rparr>]"
      "[IrInstruction None (ConstExprValue ConstValSpecialRuntime no_data) 3 1
          \<lparr>line = 0, column = 0, node_data = NodeTypeOther\<rparr>]" 1]
  by (simp add: eval_simps SIZE_MAX_def)

text \<open>
  C8, as amended. Where it is written without stopping, the named-fields form of a
  container init ends with \<^verbatim>\<open>} // container init\<close> and a struct init ends with
  \<^verbatim>\<open>} // struct init\<close>. The positional list form of a container init has no comment: its
  text ends with the closing brace.
\<close>

theorem init_trailing_comment:
  "(snd (ir_print_body b (IrInstructionContainerInitFields container_type n fields')) = None \<longrightarrow>
      suffix ''} // container init''
        (fst (ir_print_body b (IrInstructionContainerInitFields container_type n fields'))))
   \<and> (snd (ir_print_body b (IrInstructionStructInit struct_type n struct_fields)) = None \<longrightarrow>
      suffix ''} // struct init''
        (fst (ir_print_body b (IrInstructionStructInit struct_type n struct_fields))))
   \<and> (snd (ir_print_body b (IrInstructionContainerInitList container_type n items)) = None \<longrightarrow>
      suffix ''}'' (fst (ir_print_body b (IrInstructionContainerInitList container_type n items))))"
  by (simp add: ir_print_body_def ir_print_container_init_fields_def ir_print_struct_init_def
      ir_print_container_init_list_def ends_with_emit3 ends_with_emit2)

theorem init_trailing_comment_witness:
  "fst (ir_print_body
      (IrInstruction None (ConstExprValue ConstValSpecialRuntime no_data) 9 1
        \<lparr>line = 0, column = 0, node_data = NodeTypeOther\<rparr>)
      (IrInstructionContainerInitFields
        (IrInstruction (Some (TypeTableEntry TypeTableEntryIdMetaType ''type'' no_type_data))
          (ConstExprValue ConstValSpecialStatic
            (x_type (TypeTableEntry TypeTableEntryIdStruct ''Foo'' no_type_data))) 1 1
          \<lparr>line = 0, column = 0, node_data = NodeTypeOther\<rparr>)
        1
        [IrInstructionContainerInitFieldsField ''x''
          (IrInstruction None (ConstExprValue ConstValSpecialRuntime no_data) 2 1
            \<lparr>line = 0, column = 0, node_data = NodeTypeOther\<rparr>)]))
    = ''Foo{.x = #2} // container init''
   \<and> suffix ''} // container init'' ''Foo{.x = #2} // container init''
   \<and> fst (ir_print_body
      (IrInstruction None (ConstExprValue ConstValSpecialRuntime no_data) 9 1
        \<lparr>line = 0, column = 0, node_data = NodeTypeOther\<rparr>)
      (IrInstructionStructInit (TypeTableEntry TypeTableEntryIdStruct ''Foo'' no_type_data) 1
        [IrInstructionStructInitField \<lparr>struct_field_name = ''x''\<rparr>
          (IrInstruction None (ConstExprValue ConstValSpecialRuntime no_data) 2 1
            \<lparr>line = 0, column = 0, node_data = NodeTypeOther\<rparr>)]))
    = ''Foo {.x = #2} // struct init''
   \<and> suffix ''} // struct init'' ''Foo {.x = #2} // struct init''"
  using
    init_trailing_comment [THEN conjunct1,
      of "IrInstruction None (ConstExprValue ConstValSpecialRuntime no_data) 9 1
            \<lparr>line = 0, column = 0, node_data = NodeTypeOther\<rparr>"
         "IrInstruction (Some (TypeTableEntry TypeTableEntryIdMetaType ''type'' no_type_data))
            (ConstExprValue ConstValSpecialStatic
              (x_type (TypeTableEntry TypeTableEntryIdStruct ''Foo'' no_type_data))) 1 1
            \<lparr>line = 0, column = 0, node_data = NodeTypeOther\<rparr>"
         1
         "[IrInstructionContainerInitFieldsField ''x''
            (IrInstruction None (ConstExprValue ConstValSpecialRuntime no_data) 2 1
              \<lparr>line = 0, column = 0, node_data = NodeTypeOther\<rparr>)]"]
    init_trailing_comment [THEN conjunct2, THEN conjunct1,
      of "IrInstruction None (ConstExprValue ConstValSpecialRuntime no_data) 9 1
            \<lparr>line = 0, column = 0, node_data = NodeTypeOther\<rparr>"
         "TypeTableEntry TypeTableEntryIdStruct ''Foo'' no_type_data" 1
         "[IrInstructionStructInitField \<lparr>struct_field_name = ''x''\<rparr>
            (IrInstruction None (ConstExprValue ConstValSpecialRuntime no_data) 2 1
              \<lparr>line = 0, column = 0, node_data = NodeTypeOther\<rparr>)]"]
  by (simp add: eval_simps ir_print_body_def ir_print_container_init_fields_def
      ir_print_struct_init_def)

theorem container_init_list_counterexample:
  "ir_print_body
      (IrInstruction None (ConstExprValue ConstValSpecialRuntime no_data) 9 1
        \<lparr>line = 0, column = 0, node_data = NodeTypeOther\<rparr>)
      (IrInstructionContainerInitList
        (IrInstruction (Some (TypeTableEntry TypeTableEntryIdMetaType ''type'' no_type_data))
          (ConstExprValue ConstValSpecialStatic
            (x_type (TypeTableEntry TypeTableEntryIdStruct ''Foo'' no_type_data))) 1 1
          \<lparr>line = 0, column = 0, node_data = NodeTypeOther\<rparr>)
        2
        [IrInstruction None (ConstExprValue ConstValSpecialRuntime no_data) 2 1
           \<lparr>line = 0, column = 0, node_data = NodeTypeOther\<rparr>,
         IrInstruction None (ConstExprValue ConstValSpecialRuntime no_data) 3 1
           \<lparr>line = 0, column = 0, node_data = NodeTypeOther\<rparr>])
    = (''Foo{#2, #3}'', None)
   \<and> \<not> suffix ''// container init'' ''Foo{#2, #3}''"
  by (simp add: eval_simps ir_print_body_def ir_print_container_init_list_def suffix_to_prefix)

section \<open>Properties of the line prefix and of the driver\<close>

text \<open>
  C4, as amended. The prefix of an instruction's line is the indent, then \<^verbatim>\<open>#\<close> and the
  debug id in decimal, filled with spaces to 3 characters, \<^verbatim>\<open>| \<close>, the type's name or, for
  a NULL type, the placeholder \<^verbatim>\<open>(unknown)\<close>, filled with spaces to 12 characters, \<^verbatim>\<open>| \<close>,
  the use count column filled with spaces to 2 characters, and \<^verbatim>\<open>| \<close>. A text longer than
  its column is written whole.
\<close>

theorem prefix_columns:
  "ir_print_prefix hs irp i =
    (let id_text = decimal (unat (debug_id (base i)));
         type_text = (case type_entry (base i) of
                        Some t \<Rightarrow> type_name t
                      | None \<Rightarrow> ''(unknown)'');
         count_text = (if hs i then ''-'' else decimal (unat (ref_count (base i))))
     in emit (replicate (nat (indent irp)) CHR '' ''
          @ ''#'' @ id_text @ replicate (3 - length id_text) CHR '' '' @ ''| ''
          @ type_text @ replicate (12 - length type_text) CHR '' '' @ ''| ''
          @ count_text @ replicate (2 - length count_text) CHR '' '' @ ''| ''))"
  by (simp add: ir_print_prefix_text printf_left_def printf_zu_def Let_def)

theorem prefix_columns_witness:
  "ir_print_prefix (\<lambda>i. False) \<lparr>indent = 2, indent_size = 2\<rparr>
      (IrInst
        (IrInstruction None (ConstExprValue ConstValSpecialRuntime no_data) 7 5
          \<lparr>line = 0, column = 0, node_data = NodeTypeOther\<rparr>)
        IrInstructionUnreachable)
    = (''  #7  | (unknown)   | 5 | '', None)
   \<and> ir_print_prefix (\<lambda>i. True) \<lparr>indent = 0, indent_size = 0\<rparr>
      (IrInst
        (IrInstruction (Some (TypeTableEntry TypeTableEntryIdInt ''i32'' no_type_data))
          (ConstExprValue ConstValSpecialRuntime no_data) 1234 5
          \<lparr>line = 0, column = 0, node_data = NodeTypeOther\<rparr>)
        IrInstructionUnreachable)
    = (''#1234| i32         | - | '', None)"
  using
    prefix_columns [of "\<lambda>i. False" "\<lparr>indent = 2, indent_size = 2\<rparr>"
      "IrInst
        (IrInstruction None (ConstExprValue ConstValSpecialRuntime no_data) 7 5
          \<lparr>line = 0, column = 0, node_data = NodeTypeOther\<rparr>)
        IrInstructionUnreachable"]
    prefix_columns [of "\<lambda>i. True" "\<lparr>indent = 0, indent_size = 0\<rparr>"
      "IrInst
        (IrInstruction (Some (TypeTableEntry TypeTableEntryIdInt ''i32'' no_type_data))
          (ConstExprValue ConstValSpecialRuntime no_data) 1234 5
          \<lparr>line = 0, column = 0, node_data = NodeTypeOther\<rparr>)
        IrInstructionUnreachable"]
  by (simp add: emit_def decimal.simps digit_char_def replicate_numeral)

theorem prefix_unknown_counterexample:
  "ir_print_prefix (\<lambda>i. False) \<lparr>indent = 0, indent_size = 0\<rparr>
      (IrInst
        (IrInstruction None (ConstExprValue ConstValSpecialRuntime no_data) 7 5
          \<lparr>line = 0, column = 0, node_data = NodeTypeOther\<rparr>)
        IrInstructionUnreachable)
    = (''#7  | (unknown)   | 5 | '', None)
   \<and> ir_print_prefix (\<lambda>i. False) \<lparr>indent = 0, indent_size = 0\<rparr>
      (IrInst
        (IrInstruction None (ConstExprValue ConstValSpecialRuntime no_data) 7 5
          \<lparr>line = 0, column = 0, node_data = NodeTypeOther\<rparr>)
        IrInstructionUnreachable)
    \<noteq> (''#'' @ printf_left 3 ''7'' @ ''| '' @ printf_left 12 ''unknown'' @ ''| ''
         @ printf_left 2 ''5'' @ ''| '', None)
   \<and> ir_print_prefix (\<lambda>i. False) \<lparr>indent = 0, indent_size = 0\<rparr>
      (IrInst
        (IrInstruction None (ConstExprValue ConstValSpecialRuntime no_data) 7 5
          \<lparr>line = 0, column = 0, node_data = NodeTypeOther\<rparr>)
        IrInstructionUnreachable)
    \<noteq> (''#'' @ printf_left 3 ''7'' @ printf_left 12 ''unknown'' @ ''5'', None)"
  by (simp add: ir_print_prefix_text eval_simps)

text \<open>
  C5. The prefix ends with the use count column and \<^verbatim>\<open>| \<close>, and what stands before the
  column depends neither on the reference count nor on \<^verbatim>\<open>ir_has_side_effects\<close>. The
  column's text is \<^verbatim>\<open>-\<close> when the instruction has side effects, whatever its reference
  count, and the reference count in decimal otherwise; the conversion \<^verbatim>\<open>%-2s\<close> fills it
  with spaces to 2 characters.
\<close>

theorem use_count_column:
  "\<exists>lead. \<forall>hs rc.
      ir_print_prefix hs irp (IrInst (IrInstruction te sv did rc sn) p) =
        emit (lead
          @ printf_left 2 (if hs (IrInst (IrInstruction te sv did rc sn) p) then ''-''
                           else decimal (unat rc))
          @ ''| '')"
  by (rule exI [where x = "replicate (nat (indent irp)) CHR '' '' @ ''#''
      @ printf_left 3 (printf_zu did) @ ''| ''
      @ printf_left 12 (case te of Some t \<Rightarrow> type_name t | None \<Rightarrow> ''(unknown)'') @ ''| ''"])
    (simp add: ir_print_prefix_text printf_zu_def)

theorem use_count_column_witness:
  "ir_print_prefix (\<lambda>i. True) \<lparr>indent = 0, indent_size = 0\<rparr>
      (IrInst
        (IrInstruction (Some (TypeTableEntry TypeTableEntryIdInt ''i32'' no_type_data))
          (ConstExprValue ConstValSpecialRuntime no_data) 7 0
          \<lparr>line = 0, column = 0, node_data = NodeTypeOther\<rparr>)
        IrInstructionUnreachable)
    = (''#7  | i32         | - | '', None)
   \<and> ir_print_prefix (\<lambda>i. True) \<lparr>indent = 0, indent_size = 0\<rparr>
      (IrInst
        (IrInstruction (Some (TypeTableEntry TypeTableEntryIdInt ''i32'' no_type_data))
          (ConstExprValue ConstValSpecialRuntime no_data) 7 5
          \<lparr>line = 0, column = 0, node_data = NodeTypeOther\<rparr>)
        IrInstructionUnreachable)
    = (''#7  | i32         | - | '', None)
   \<and> ir_print_prefix (\<lambda>i. False) \<lparr>indent = 0, indent_size = 0\<rparr>
      (IrInst
        (IrInstruction (Some (TypeTableEntry TypeTableEntryIdInt ''i32'' no_type_data))
          (ConstExprValue ConstValSpecialRuntime no_data) 7 5
          \<lparr>line = 0, column = 0, node_data = NodeTypeOther\<rparr>)
        IrInstructionUnreachable)
    = (''#7  | i32         | 5 | '', None)
   \<and> ir_print_prefix (\<lambda>i. False) \<lparr>indent = 0, indent_size = 0\<rparr>
      (IrInst
        (IrInstruction (Some (TypeTableEntry TypeTableEntryIdInt ''i32'' no_type_data))
          (ConstExprValue ConstValSpecialRuntime no_data) 7 123
          \<lparr>line = 0, column = 0, node_data = NodeTypeOther\<rparr>)
        IrInstructionUnreachable)
    = (''#7  | i32         | 123| '', None)"
proof -
  obtain lead where lead: "\<forall>hs rc.
      ir_print_prefix hs \<lparr>indent = 0, indent_size = 0\<rparr>
        (IrInst
          (IrInstruction (Some (TypeTableEntry TypeTableEntryIdInt ''i32'' no_type_data))
            (ConstExprValue ConstValSpecialRuntime no_data) 7 rc
            \<lparr>line = 0, column = 0, node_data = NodeTypeOther\<rparr>)
          IrInstructionUnreachable) =
        emit (lead
          @ printf_left 2 (if hs
              (IrInst
                (IrInstruction (Some (TypeTableEntry TypeTableEntryIdInt ''i32'' no_type_data))
                  (ConstExprValue ConstValSpecialRuntime no_data) 7 rc
                  \<lparr>line = 0, column = 0, node_data = NodeTypeOther\<rparr>)
                IrInstructionUnreachable) then ''-'' else decimal (unat rc))
          @ ''| '')"
    using use_count_column by blast
  have "lead = ''#7  | i32         | ''"
    using lead [THEN spec, of "\<lambda>i. True", THEN spec, of 0]
    by (simp add: ir_print_prefix_text eval_simps)
  then show ?thesis
    using lead [THEN spec, of "\<lambda>i. True", THEN spec, of 0]
      lead [THEN spec, of "\<lambda>i. True", THEN spec, of 5]
      lead [THEN spec, of "\<lambda>i. False", THEN spec, of 5]
      lead [THEN spec, of "\<lambda>i. False", THEN spec, of 123]
    by (simp add: eval_simps)
qed

text \<open>
  C10. For an indent size \<open>k \<ge> 0\<close>, \<^verbatim>\<open>ir_print\<close> writes, for each block in order, the label
  line, which starts with the block's name hint and has no indent, and then one line for
  each instruction of the block in order, which starts with exactly \<open>k\<close> spaces followed
  by the \<^verbatim>\<open>#\<close> of the prefix. Nothing else is indented, and nothing is written after a
  fatal path.
\<close>

theorem ir_print_left_margin:
  "ir_print hs exe (int k) =
     seqs (map (\<lambda>b.
       seqs [
         emit (name_hint b @ ''_'' @ printf_zu (block_debug_id b) @ '':'' @ [CHR 0x0A]),
         seqs (map (\<lambda>i.
           seqs [
             emit (replicate k CHR '' '' @ ''#''
                   @ printf_left 3 (printf_zu (debug_id (base i))) @ ''| ''
                   @ printf_left 12 (case type_entry (base i) of
                                       Some t \<Rightarrow> type_name t
                                     | None \<Rightarrow> ''(unknown)'') @ ''| ''
                   @ printf_left 2 (if hs i then ''-'' else printf_zu (ref_count (base i)))
                   @ ''| ''),
             ir_print_body (base i) (payload i),
             emit [CHR 0x0A]]) (instruction_list b))]) (basic_block_list exe))"
proof -
  define irp where "irp = \<lparr>indent = int k, indent_size = int k\<rparr>"
  define block where "block = (\<lambda>b :: IrBasicBlock.
       seqs [
         emit (name_hint b @ ''_'' @ printf_zu (block_debug_id b) @ '':'' @ [CHR 0x0A]),
         for_loop 0 (length (instruction_list b)) (\<lambda>instr_i.
           ir_print_instruction hs irp (instruction_list b ! instr_i))])"
  have "ir_print hs exe (int k)
      = for_loop 0 (length (basic_block_list exe)) (\<lambda>bb_i. block (basic_block_list exe ! bb_i))"
    by (simp add: ir_print_def Let_def block_def irp_def)
  also have "\<dots> = seqs (map block (basic_block_list exe))"
    by (rule for_loop_nth)
  also have "block = (\<lambda>b.
       seqs [
         emit (name_hint b @ ''_'' @ printf_zu (block_debug_id b) @ '':'' @ [CHR 0x0A]),
         seqs (map (ir_print_instruction hs irp) (instruction_list b))])"
    unfolding block_def for_loop_nth ..
  finally show ?thesis
    by (simp add: ir_print_instruction_def [abs_def] ir_print_prefix_text irp_def)
qed

theorem ir_print_left_margin_witness:
  "ir_print (\<lambda>i. True)
      \<lparr>basic_block_list = [
         \<lparr>name_hint = ''entry'', block_debug_id = 0,
          instruction_list = [
            IrInst
              (IrInstruction (Some (TypeTableEntry TypeTableEntryIdInt ''i32'' no_type_data))
                (ConstExprValue ConstValSpecialRuntime no_data) 1 0
                \<lparr>line = 0, column = 0, node_data = NodeTypeOther\<rparr>)
              (IrInstructionReturn (Some
                (IrInstruction (Some (TypeTableEntry TypeTableEntryIdInt ''i32'' no_type_data))
                  (ConstExprValue ConstValSpecialStatic
                    (x_bignum \<lparr>kind = BigNumKindInt, is_negative = False,
                               bignum_data = x_uint 42\<rparr>)) 0 1
                  \<lparr>line = 0, column = 0, node_data = NodeTypeOther\<rparr>)))]\<rparr>]\<rparr> 2
    = (''entry_0:'' @ [CHR 0x0A] @ ''  #1  | i32         | - | return 42'' @ [CHR 0x0A], None)"
  using ir_print_left_margin [of "\<lambda>i. True"
      "\<lparr>basic_block_list = [
         \<lparr>name_hint = ''entry'', block_debug_id = 0,
          instruction_list = [
            IrInst
              (IrInstruction (Some (TypeTableEntry TypeTableEntryIdInt ''i32'' no_type_data))
                (ConstExprValue ConstValSpecialRuntime no_data) 1 0
                \<lparr>line = 0, column = 0, node_data = NodeTypeOther\<rparr>)
              (IrInstructionReturn (Some
                (IrInstruction (Some (TypeTableEntry TypeTableEntryIdInt ''i32'' no_type_data))
                  (ConstExprValue ConstValSpecialStatic
                    (x_bignum \<lparr>kind = BigNumKindInt, is_negative = False,
                               bignum_data = x_uint 42\<rparr>)) 0 1
                  \<lparr>line = 0, column = 0, node_data = NodeTypeOther\<rparr>)))]\<rparr>]\<rparr>" 2]
  by (simp add: eval_simps ir_print_body_def ir_print_return_def)

end
